theory Spec2Isabelle
  imports Main
begin

section \<open>Gue: a task runner gluing shell commands to a task graph\<close>

text \<open>
  The development follows \<^verbatim>\<open>index.js\<close> (class \<^verbatim>\<open>Gue extends Orchestrator\<close>)
  and \<^verbatim>\<open>bin/gluey.js\<close> (the command line). The class is glue code: it calls the
  packages \<^verbatim>\<open>lodash.template\<close>, \<^verbatim>\<open>execa\<close>, \<^verbatim>\<open>trim-newlines\<close>, \<^verbatim>\<open>chalk\<close>,
  \<^verbatim>\<open>pretty-ms\<close>, \<^verbatim>\<open>chokidar\<close> and inherits from \<^verbatim>\<open>orchestrator\<close>. None of these
  packages is part of the sources. The pure functions among them are parameters of the
  model (the record \<open>lib\<close>); the calls with an effect are recorded, in order, in the
  \<open>trace\<close> of the state. Where a property needs more of a package than the call,
  what the package does is taken from the spec, and the definition says so.

  Two things are decided wholly inside such a package and are not stated here: how
  the scheduler of \<^verbatim>\<open>orchestrator\<close> goes on after a task has failed, and what
  \<^verbatim>\<open>lodash.template\<close> renders for an identifier that is not bound.
\<close>

subsection \<open>JavaScript values\<close>

text \<open>
  The values a caller can hand to \<^verbatim>\<open>shell\<close> as binding table, to \<^verbatim>\<open>setOption\<close> as
  value and to the command line as flag. An object is its list of own properties, in
  the order they were added (property names that are array indices, which JavaScript
  lists first, are not treated apart). The prototype of \<open>Obj ps\<close> is
  \<^verbatim>\<open>Object.prototype\<close>, as for an object literal; \<open>ObjProto ps p\<close> is an object
  whose prototype was set to \<open>p\<close>, an object or \<^verbatim>\<open>null\<close>. Values are compared by
  what they hold: the identity of an object is not part of a value.
\<close>

datatype jsval =
    Undefined
  | Null
  | Bool bool
  | Num int
  | Str string
  | Obj "(string \<times> jsval) list"
  | ObjProto "(string \<times> jsval) list" jsval

text \<open>JavaScript's \<^verbatim>\<open>ToBoolean\<close>: what \<^verbatim>\<open>v && ...\<close>, \<^verbatim>\<open>!v\<close> and \<^verbatim>\<open>if (v)\<close> test.\<close>

fun truthy :: "jsval \<Rightarrow> bool" where
  "truthy Undefined = False"
| "truthy Null = False"
| "truthy (Bool b) = b"
| "truthy (Num n) = (n \<noteq> 0)"
| "truthy (Str s) = (s \<noteq> [])"
| "truthy (Obj ps) = True"
| "truthy (ObjProto ps p) = True"

text \<open>The \<^verbatim>\<open>typeof\<close> operator: its result is always a string.\<close>

fun typeof :: "jsval \<Rightarrow> string" where
  "typeof Undefined = ''undefined''"
| "typeof Null = ''object''"
| "typeof (Bool b) = ''boolean''"
| "typeof (Num n) = ''number''"
| "typeof (Str s) = ''string''"
| "typeof (Obj ps) = ''object''"
| "typeof (ObjProto ps p) = ''object''"

text \<open>
  Assignment \<^verbatim>\<open>obj[name] = value\<close> on an ordinary object: an existing property keeps
  its place and takes the new value, a new property is added last.
\<close>

fun obj_set :: "string \<Rightarrow> 'v \<Rightarrow> (string \<times> 'v) list \<Rightarrow> (string \<times> 'v) list" where
  "obj_set k v [] = [(k, v)]"
| "obj_set k v ((k', v') # ps) = (if k' = k then (k, v) # ps else (k', v') # obj_set k v ps)"

text \<open>\<^verbatim>\<open>Array.prototype.join\<close> on an array of strings.\<close>

fun join :: "string \<Rightarrow> string list \<Rightarrow> string" where
  "join sep [] = []"
| "join sep [x] = x"
| "join sep (x # y # ys) = x @ sep @ join sep (y # ys)"

text \<open>
  The one accessor property of \<^verbatim>\<open>Object.prototype\<close> is \<^verbatim>\<open>__proto__\<close>. An
  assignment \<^verbatim>\<open>obj['__proto__'] = value\<close> reaches its setter when no object from
  \<open>obj\<close> along the prototype chain has a property of its own under that name and the
  chain ends in \<^verbatim>\<open>Object.prototype\<close>, not in \<^verbatim>\<open>null\<close>. \<open>proto_accessor p\<close> is
  that test from the prototype \<open>p\<close> on. The setter takes an object or \<^verbatim>\<open>null\<close> as
  the new prototype and ignores every other value.
\<close>

fun proto_accessor :: "jsval \<Rightarrow> bool" where
  "proto_accessor (Obj ps) = (map_of ps ''__proto__'' = None)"
| "proto_accessor (ObjProto ps p) = (map_of ps ''__proto__'' = None \<and> proto_accessor p)"
| "proto_accessor Undefined = False"
| "proto_accessor Null = False"
| "proto_accessor (Bool b) = False"
| "proto_accessor (Num n) = False"
| "proto_accessor (Str s) = False"

fun is_object_or_null :: "jsval \<Rightarrow> bool" where
  "is_object_or_null (Obj ps) = True"
| "is_object_or_null (ObjProto ps p) = True"
| "is_object_or_null Null = True"
| "is_object_or_null Undefined = False"
| "is_object_or_null (Bool b) = False"
| "is_object_or_null (Num n) = False"
| "is_object_or_null (Str s) = False"

subsection \<open>The packages the code calls\<close>

text \<open>What \<^verbatim>\<open>execa\<close> hands back for a finished subprocess, resolved or rejected.\<close>

record execa_result =
  stdout :: string
  stderr :: string
  code :: int

text \<open>A promise that has settled.\<close>

datatype 'a settled = Resolved 'a | Rejected 'a

text \<open>The options \<^verbatim>\<open>_shell\<close> passes to \<^verbatim>\<open>execa.shell\<close>: the environment of the subprocess.\<close>

record shell_opts =
  env :: "(string \<times> string) list"

text \<open>
  The pure functions of the packages. \<open>template\<close> stands for
  \<^verbatim>\<open>template(command)(vars)\<close> of \<^verbatim>\<open>lodash.template\<close> under the interpolation
  pattern given as its first argument; compiling or rendering may throw, which is
  \<open>Inl\<close> of the error. \<open>execa_shell\<close> stands for the promise of
  \<^verbatim>\<open>execa.shell(command, opts)\<close> once it has settled.
\<close>

record lib =
  template :: "string \<times> string \<Rightarrow> string \<Rightarrow> jsval \<Rightarrow> string + string"
  execa_shell :: "string \<Rightarrow> shell_opts \<Rightarrow> execa_result settled"
  trimNewlines :: "string \<Rightarrow> string"
  chalk_red :: "string \<Rightarrow> string"
  chalk_cyan :: "string \<Rightarrow> string"
  chalk_white :: "string \<Rightarrow> string"
  chalk_bold_green :: "string \<Rightarrow> string"
  chalk_green :: "string \<Rightarrow> string"
  chalk_blue :: "string \<Rightarrow> string"
  chalk_magenta :: "string \<Rightarrow> string"
  prettyMs :: "int \<Rightarrow> string"

subsection \<open>Tasks and the state of the runner\<close>

text \<open>
  A task's action is a JavaScript function. The documentation of \<^verbatim>\<open>task\<close> asks for
  a function that returns a promise or calls the callback it is passed. The shapes
  below are: a function that returns the promise of \<^verbatim>\<open>gue.shell(command, value)\<close> or
  of \<^verbatim>\<open>gue.silentShell(command, value)\<close>; a function that returns a promise of its
  own, \<^verbatim>\<open>() => Promise.resolve()\<close> or \<^verbatim>\<open>() => Promise.reject(err)\<close>; and a
  function that calls the callback, \<^verbatim>\<open>(done) => { done(err); }\<close>, with an error or
  without one. An absent error is \<open>None\<close>.
\<close>

datatype action =
    ShellAction string jsval
  | SilentShellAction string jsval
  | PromiseAction "string option"
  | CallbackAction "string option"

text \<open>
  An entry of the registry: the name, the dependencies and the action as they were
  registered, an absent one being \<open>None\<close>.
\<close>

record task =
  t_name :: string
  t_dep :: "string list option"
  t_fn :: "action option"

text \<open>
  The completion callback \<^verbatim>\<open>_watch\<close> passes to \<^verbatim>\<open>start\<close>:
  \<^verbatim>\<open>() => { this._watch(glob, taskList); }\<close>, a closure over \<^verbatim>\<open>glob\<close> and
  \<^verbatim>\<open>taskList\<close>.
\<close>

datatype callback = Rewatch "string list" "string list"

text \<open>
  A \<^verbatim>\<open>chokidar\<close> watcher made by \<^verbatim>\<open>_watch\<close>: the glob it watches, the task list its
  \<^verbatim>\<open>'all'\<close> handler closes over, and whether \<^verbatim>\<open>close()\<close> was called on it.
\<close>

record watcher =
  w_glob :: "string list"
  w_taskList :: "string list"
  w_closed :: bool

text \<open>
  What stops a call before it does its work: \<^verbatim>\<open>require\<close> called without a path,
  and the two errors for which the scheduler refuses a run, a name without a
  registration and a cycle among the dependencies (the names on the cycle).
\<close>

datatype fault =
    RequireWithoutPath
  | UnknownTask string
  | DependencyCycle "string list"

text \<open>
  A run asked for through the inherited \<^verbatim>\<open>start\<close>: the names it was asked for, its
  completion callback, whether it has settled, and the error for which the scheduler
  refused it, \<open>None\<close> for a run that was accepted.
\<close>

record run =
  r_tasks :: "string list"
  r_callback :: "callback option"
  r_settled :: bool
  r_fault :: "fault option"

text \<open>
  The two listeners \<^verbatim>\<open>bin/gluey.js\<close> attaches with \<^verbatim>\<open>glueInst.on\<close>: the one for
  \<^verbatim>\<open>task_start\<close> and the one for \<^verbatim>\<open>task_stop\<close>.
\<close>

datatype listener = PrintStarted | PrintFinished

text \<open>The calls that leave the class, in the order they are made.\<close>

datatype effect =
    ConsoleLog string
  | ExecaShell string shell_opts
  | ChokidarWatch "string list" bool
  | WatcherClose nat
  | OrchestratorStart "string list"
  | Require string
  | ProcessExit int

text \<open>
  The \<^verbatim>\<open>Gue\<close> instance and the process around it. \<open>exitCode\<close> and \<open>options\<close> are
  the fields the constructor sets, \<open>options\<close> being the own properties of the object
  \<^verbatim>\<open>this.options\<close> and \<open>options_proto\<close> its prototype, \<open>None\<close> for the
  \<^verbatim>\<open>Object.prototype\<close> an object literal has; \<open>tasks\<close> is the inherited registry that
  \<^verbatim>\<open>taskList\<close> reads with \<^verbatim>\<open>Object.keys\<close>; \<open>watchers\<close> and \<open>runs\<close> are the
  watchers and runs created so far, a watcher or run being named by its position;
  \<open>listeners\<close> are the listeners attached with \<^verbatim>\<open>on\<close>, each with the name of its
  event; \<open>env_PATH\<close> is \<^verbatim>\<open>process.env.PATH\<close>; \<open>exited\<close> is the status given to
  \<^verbatim>\<open>process.exit\<close>, once it was called. The fields \<open>exitCode\<close> and \<open>options\<close>
  belong to the subclass: they are written by the methods of \<^verbatim>\<open>index.js\<close> only, and
  the inherited methods work on the registry and the runs.
\<close>

record gue =
  exitCode :: int
  options :: "(string \<times> jsval) list"
  options_proto :: "jsval option"
  tasks :: "(string \<times> task) list"
  watchers :: "watcher list"
  runs :: "run list"
  listeners :: "(string \<times> listener) list"
  trace :: "effect list"
  env_PATH :: string
  exited :: "int option"

subsection \<open>The constructor, options and the task list\<close>

text \<open>
  \<^verbatim>\<open>constructor(...args) { super(...args); this.exitCode = 0; this.options = {}; }\<close>:
  the argument is the object as \<^verbatim>\<open>super(...args)\<close> left it.
\<close>

definition constructor :: "gue \<Rightarrow> gue" where
  "constructor this = this\<lparr>exitCode := 0, options := [], options_proto := None\<rparr>"

text \<open>The value of the field \<^verbatim>\<open>this.options\<close>.\<close>

definition this_options :: "gue \<Rightarrow> jsval" where
  "this_options this =
     (case options_proto this of
        None \<Rightarrow> Obj (options this)
      | Some p \<Rightarrow> ObjProto (options this) p)"

text \<open>
  \<^verbatim>\<open>setOption(name, value) { this.options[name] = value; }\<close>. For every name but
  \<^verbatim>\<open>__proto__\<close> the assignment makes or updates a property of the object's own.
  For \<^verbatim>\<open>__proto__\<close> it reaches the setter of \<^verbatim>\<open>Object.prototype\<close>, when that is
  what the name finds: no property of the object's own is made, and the prototype is
  replaced by a value that is an object or \<^verbatim>\<open>null\<close>.
\<close>

definition setOption :: "string \<Rightarrow> jsval \<Rightarrow> gue \<Rightarrow> gue" where
  "setOption name value this =
     (if name = ''__proto__'' \<and> map_of (options this) ''__proto__'' = None \<and>
         (case options_proto this of None \<Rightarrow> True | Some p \<Rightarrow> proto_accessor p)
      then (if is_object_or_null value then this\<lparr>options_proto := Some value\<rparr> else this)
      else this\<lparr>options := obj_set name value (options this)\<rparr>)"

definition taskList :: "gue \<Rightarrow> string list" where
  "taskList this = map fst (tasks this)"

subsection \<open>Logging\<close>

definition console_log :: "string \<Rightarrow> gue \<Rightarrow> gue" where
  "console_log line this = this\<lparr>trace := trace this @ [ConsoleLog line]\<rparr>"

text \<open>
  \<^verbatim>\<open>_log(type, message, taskname, duration)\<close>, written \<open>u_log\<close> (a name cannot start
  with an underscore here). An absent \<^verbatim>\<open>taskname\<close> or \<^verbatim>\<open>duration\<close> is \<open>None\<close>.
\<close>

definition u_log :: "lib \<Rightarrow> string \<Rightarrow> string \<Rightarrow> string option \<Rightarrow> int option \<Rightarrow> gue \<Rightarrow> gue" where
  "u_log L type message taskname duration this =
     (if message = [] then this
      else
        let c1 = (case taskname of
                    None \<Rightarrow> []
                  | Some t \<Rightarrow> if t \<noteq> [] then chalk_bold_green L (''['' @ t @ ''] '') else []);
            c2 = (if type = ''error'' then c1 @ chalk_red L message
                  else if type = ''normal'' then c1 @ chalk_cyan L message
                  else if type = ''clean'' then c1 @ message
                  else c1 @ message);
            c3 = (case duration of
                    None \<Rightarrow> c2
                  | Some d \<Rightarrow> if d > 0 then c2 @ '' '' @ chalk_white L (prettyMs L d) else c2)
        in console_log c3 this)"

text \<open>\<^verbatim>\<open>!taskname\<close> and \<^verbatim>\<open>!duration\<close> as \<^verbatim>\<open>log\<close> tests them.\<close>

definition not_taskname :: "string option \<Rightarrow> bool" where
  "not_taskname taskname = (case taskname of None \<Rightarrow> True | Some t \<Rightarrow> t = [])"

definition not_duration :: "int option \<Rightarrow> bool" where
  "not_duration duration = (case duration of None \<Rightarrow> True | Some d \<Rightarrow> d = 0)"

definition log :: "lib \<Rightarrow> string \<Rightarrow> string option \<Rightarrow> int option \<Rightarrow> gue \<Rightarrow> gue" where
  "log L message taskname duration this =
     (if not_taskname taskname \<and> not_duration duration
      then u_log L ''clean'' message None None this
      else u_log L ''normal'' message taskname duration this)"

definition errLog :: "lib \<Rightarrow> string \<Rightarrow> string option \<Rightarrow> int option \<Rightarrow> gue \<Rightarrow> gue" where
  "errLog L message taskname duration this = u_log L ''error'' message taskname duration this"

subsection \<open>Shell commands\<close>

text \<open>
  \<^verbatim>\<open>const lodashVars = (values && typeof values !== undefined) ? values : this.options\<close>.
  The comparison is between the string \<^verbatim>\<open>typeof\<close> returns and the value
  \<^verbatim>\<open>undefined\<close>.
\<close>

definition lodashVars :: "jsval \<Rightarrow> gue \<Rightarrow> jsval" where
  "lodashVars values this =
     (if truthy values \<and> Str (typeof values) \<noteq> Undefined then values else this_options this)"

definition shellOpts :: "gue \<Rightarrow> shell_opts" where
  "shellOpts this = \<lparr>env = [(''FORCE_COLOR'', ''true''), (''PATH'', env_PATH this)]\<rparr>"

text \<open>
  \<^verbatim>\<open>templateSettings.interpolate = /{{([\s\S]+?)}}/g\<close>: a token opens with the
  first component and closes with the second, with one or more characters, as few as
  possible, between them.
\<close>

definition interpolate :: "string \<times> string" where
  "interpolate = (''{{'', ''}}'')"

text \<open>
  What a call of \<^verbatim>\<open>_shell\<close> gives its caller: an exception thrown before any promise
  exists, or the promise, here with the value it settles to.
\<close>

datatype shell_return = Threw string | Promise "execa_result settled"

text \<open>
  \<^verbatim>\<open>_shell(mode, command, values)\<close>. The handlers of \<^verbatim>\<open>.then\<close> and \<^verbatim>\<open>.catch\<close> run
  when the subprocess has finished; the model runs them with the call.
\<close>

definition u_shell :: "lib \<Rightarrow> string \<Rightarrow> string \<Rightarrow> jsval \<Rightarrow> gue \<Rightarrow> shell_return \<times> gue" where
  "u_shell L mode command values this =
     (case template L interpolate command (lodashVars values this) of
        Inl e \<Rightarrow> (Threw e, this)
      | Inr cmd \<Rightarrow>
          (let started = this\<lparr>trace := trace this @ [ExecaShell cmd (shellOpts this)]\<rparr>
           in case execa_shell L cmd (shellOpts this) of
                Resolved result \<Rightarrow>
                  (Promise (Resolved result),
                   if mode = ''print''
                   then log L (trimNewlines L (stdout result)) None None
                          (errLog L (trimNewlines L (stderr result)) None None started)
                   else started)
              | Rejected result \<Rightarrow>
                  (Promise (Rejected result),
                   if mode = ''print''
                   then log L (trimNewlines L (stdout result)) None None
                          (errLog L (trimNewlines L (stderr result)) None None
                             (started\<lparr>exitCode := 1\<rparr>))
                   else started\<lparr>exitCode := 1\<rparr>)))"

definition shell :: "lib \<Rightarrow> string \<Rightarrow> jsval \<Rightarrow> gue \<Rightarrow> shell_return \<times> gue" where
  "shell L command value this = u_shell L ''print'' command value this"

definition silentShell :: "lib \<Rightarrow> string \<Rightarrow> jsval \<Rightarrow> gue \<Rightarrow> shell_return \<times> gue" where
  "silentShell L command value this = u_shell L ''silent'' command value this"

subsection \<open>Registering and starting tasks\<close>

text \<open>
  Modelled from the spec: the inherited \<^verbatim>\<open>add\<close> of the \<^verbatim>\<open>orchestrator\<close> package is
  missing from the sources. The spec gives it as
  \<^verbatim>\<open>register(name, dependencies?, action?)\<close>: it validates that the name is
  non-empty and fails otherwise (that the dependencies are a sequence of strings and
  the action is callable is the typing here), and re-registration under a name
  replaces the prior entry. The registry maps a task name to its task.
\<close>

definition add :: "string \<Rightarrow> string list option \<Rightarrow> action option \<Rightarrow> gue \<Rightarrow> string + gue" where
  "add name deps func this =
     (if name = [] then Inl ''Task requires a name''
      else Inr (this\<lparr>tasks := obj_set name \<lparr>t_name = name, t_dep = deps, t_fn = func\<rparr> (tasks this)\<rparr>))"

text \<open>\<^verbatim>\<open>task(name, deps, func) { super.add(name, deps, func); }\<close>\<close>

definition task :: "string \<Rightarrow> string list option \<Rightarrow> action option \<Rightarrow> gue \<Rightarrow> string + gue" where
  "task name deps func this = add name deps func this"

text \<open>The dependencies of a registered task, none when it was registered without.\<close>

definition dependencies :: "task \<Rightarrow> string list" where
  "dependencies t = (case t_dep t of None \<Rightarrow> [] | Some ds \<Rightarrow> ds)"

text \<open>
  Modelled from the spec: the scheduler of the \<^verbatim>\<open>orchestrator\<close> package is missing
  from the sources. For the spec a run begins with the closure of the required
  tasks, the requested names and everything they depend on: a name in it that has no
  registration is an \<^verbatim>\<open>unknown task\<close> error, and a cycle in it is a scheduling error;
  both are fatal and the run never starts. \<open>faults reg path n\<close> follows the
  dependencies from the name \<open>n\<close>, reached along \<open>path\<close> (the last name first), and
  lists the errors it meets: a name without registration, and a name that is on the
  path already, with the names of the cycle it closes.
\<close>

function faults :: "(string \<times> task) list \<Rightarrow> string list \<Rightarrow> string \<Rightarrow> fault list" where
  "faults reg path n =
     (case map_of reg n of
        None \<Rightarrow> [UnknownTask n]
      | Some t \<Rightarrow>
          if n \<in> set path then [DependencyCycle (n # rev (takeWhile (\<lambda>x. x \<noteq> n) path))]
          else concat (map (faults reg (n # path)) (dependencies t)))"
  by pat_completeness auto
termination
proof (relation "measure (\<lambda>(reg, path, n). card (fst ` set reg - set path))")
  show "wf (measure (\<lambda>(reg, path, n). card (fst ` set reg - set path)))" by simp
next
  fix reg :: "(string \<times> task) list" and path n t d
  assume a: "map_of reg n = Some t" "n \<notin> set path"
  then have "n \<in> fst ` set reg" by (metis map_of_SomeD fst_conv image_eqI)
  with a have "fst ` set reg - set (n # path) \<subset> fst ` set reg - set path" by auto
  then have "card (fst ` set reg - set (n # path)) < card (fst ` set reg - set path)"
    by (intro psubset_card_mono) auto
  then show "((reg, n # path, d), (reg, path, n)) \<in>
      measure (\<lambda>(reg, path, n). card (fst ` set reg - set path))"
    by simp
qed

declare faults.simps [simp del]

fun is_unknown :: "fault \<Rightarrow> bool" where
  "is_unknown (UnknownTask n) = True"
| "is_unknown (DependencyCycle ns) = False"
| "is_unknown RequireWithoutPath = False"

text \<open>
  Modelled from the spec: the error for which a run of \<open>names\<close> never starts, the
  unknown task first and the cycle second, as the spec orders the two checks;
  \<open>None\<close> when there is neither.
\<close>

definition start_fault :: "(string \<times> task) list \<Rightarrow> string list \<Rightarrow> fault option" where
  "start_fault reg names =
     (let found = concat (map (faults reg []) names)
      in case filter is_unknown found of
           u # us \<Rightarrow> Some u
         | [] \<Rightarrow> (case found of [] \<Rightarrow> None | f # fs \<Rightarrow> Some f))"

text \<open>
  The dependencies as a relation, for stating what the closure of a run holds: a
  registered task and a name among its dependencies.
\<close>

definition depends :: "(string \<times> task) list \<Rightarrow> (string \<times> string) set" where
  "depends reg = {(a, b). \<exists>t. map_of reg a = Some t \<and> b \<in> set (dependencies t)}"

text \<open>
  Modelled from the spec: the inherited \<^verbatim>\<open>start\<close> of the \<^verbatim>\<open>orchestrator\<close> package
  is missing from the sources. The spec gives it as \<^verbatim>\<open>run(taskNames, onDone?)\<close>: it
  begins a run of the named tasks, unless the run is refused for an unknown task or a
  cycle, and \<open>onDone\<close> is called once the run has settled. Here the call records the
  run with its callback and with the error, if it is refused; the run settles with
  the event \<open>RunSettled\<close> below.
\<close>

definition start :: "string list \<Rightarrow> callback option \<Rightarrow> gue \<Rightarrow> gue" where
  "start taskNames onDone this =
     this\<lparr>runs := runs this @ [\<lparr>r_tasks = taskNames, r_callback = onDone, r_settled = False,
                                r_fault = start_fault (tasks this) taskNames\<rparr>],
          trace := trace this @ [OrchestratorStart taskNames]\<rparr>"

subsection \<open>Watching files\<close>

text \<open>
  \<^verbatim>\<open>_watch(glob, taskList)\<close>, written \<open>u_watch\<close>:
  \<^verbatim>\<open>chokidar.watch(glob, {ignoreInitial: true})\<close> makes a new watcher, the handler
  for \<^verbatim>\<open>'all'\<close> is attached, and the watcher is returned. The parameter
  \<^verbatim>\<open>taskList\<close> is written \<open>task_list\<close>, \<open>taskList\<close> being the method.
\<close>

definition u_watch :: "string list \<Rightarrow> string list \<Rightarrow> gue \<Rightarrow> nat \<times> gue" where
  "u_watch glob task_list this =
     (length (watchers this),
      this\<lparr>watchers := watchers this @ [\<lparr>w_glob = glob, w_taskList = task_list, w_closed = False\<rparr>],
           trace := trace this @ [ChokidarWatch glob True]\<rparr>)"

text \<open>\<^verbatim>\<open>watcher.close()\<close>\<close>

definition watcher_close :: "nat \<Rightarrow> gue \<Rightarrow> gue" where
  "watcher_close w this =
     this\<lparr>watchers := (watchers this)[w := (watchers this ! w)\<lparr>w_closed := True\<rparr>],
          trace := trace this @ [WatcherClose w]\<rparr>"

text \<open>
  The handler \<^verbatim>\<open>_watch\<close> attaches with \<^verbatim>\<open>watcher.on('all', (event, path) => ...)\<close>.
  The arguments \<open>watcher\<close>, \<open>glob\<close> and \<open>task_list\<close> are the variables it closes
  over.
\<close>

definition on_all :: "lib \<Rightarrow> nat \<Rightarrow> string list \<Rightarrow> string list \<Rightarrow> string \<Rightarrow> string \<Rightarrow> gue \<Rightarrow> gue" where
  "on_all L watcher glob task_list event path this =
     start task_list (Some (Rewatch glob task_list))
       (watcher_close watcher
          (log L (path @ '' '' @ event) (Some ''watch'') None
             (log L [CHR 0x0A] None None this)))"

text \<open>Calling a completion callback.\<close>

fun run_callback :: "callback \<Rightarrow> gue \<Rightarrow> gue" where
  "run_callback (Rewatch glob task_list) this = snd (u_watch glob task_list this)"

text \<open>\<^verbatim>\<open>watch(glob, taskList)\<close>\<close>

definition watch :: "lib \<Rightarrow> string list \<Rightarrow> string list \<Rightarrow> gue \<Rightarrow> nat \<times> gue" where
  "watch L glob task_list this =
     u_watch glob task_list (log L ''Started. ^c to stop'' (Some ''watch'') None this)"

text \<open>
  The listeners of \<^verbatim>\<open>bin/gluey.js\<close>, called with the task and the duration of the
  event: \<^verbatim>\<open>console.log(chalk.green('[' + event.task + ']') + chalk.blue('started'))\<close>
  and the like for \<^verbatim>\<open>task_stop\<close>, with the duration through \<^verbatim>\<open>prettyMs\<close>.
\<close>

fun call_listener :: "lib \<Rightarrow> listener \<Rightarrow> string \<Rightarrow> int \<Rightarrow> gue \<Rightarrow> gue" where
  "call_listener L PrintStarted task_name duration this =
     console_log (chalk_green L (''['' @ task_name @ '']'') @ chalk_blue L ''started'') this"
| "call_listener L PrintFinished task_name duration this =
     console_log (chalk_green L (''['' @ task_name @ '']'') @ chalk_blue L ''finished in ''
                  @ chalk_magenta L (prettyMs L duration)) this"

text \<open>Emitting an event: the listeners attached under its name are called in order.\<close>

fun emit :: "lib \<Rightarrow> string \<Rightarrow> string \<Rightarrow> int \<Rightarrow> (string \<times> listener) list \<Rightarrow> gue \<Rightarrow> gue" where
  "emit L name task_name duration [] this = this"
| "emit L name task_name duration ((n, l) # ls) this =
     emit L name task_name duration ls
       (if n = name then call_listener L l task_name duration this else this)"

text \<open>
  Modelled from the spec: the packages \<^verbatim>\<open>chokidar\<close> and \<^verbatim>\<open>orchestrator\<close> are missing
  from the sources. What reaches the class from them is a file event on a watcher
  (the name of the event and the path), a run that settles (\<open>True\<close> when it
  failed), and the events \<^verbatim>\<open>task_start{task}\<close> and \<^verbatim>\<open>task_stop{task, duration}\<close>.
  A watcher that is live calls its handler on a file event and a watcher that was
  torn down does not; a run that settles, with success or with failure, calls its
  completion callback, and settles once.
\<close>

datatype event =
    FsEvent nat string string
  | RunSettled nat bool
  | TaskStart string
  | TaskStop string int

fun deliver :: "lib \<Rightarrow> event \<Rightarrow> gue \<Rightarrow> gue" where
  "deliver L (FsEvent w event path) this =
     (if w < length (watchers this) \<and> \<not> w_closed (watchers this ! w)
      then on_all L w (w_glob (watchers this ! w)) (w_taskList (watchers this ! w)) event path this
      else this)"
| "deliver L (RunSettled r failed) this =
     (if r < length (runs this) \<and> \<not> r_settled (runs this ! r)
      then (let settled = this\<lparr>runs := (runs this)[r := (runs this ! r)\<lparr>r_settled := True\<rparr>]\<rparr>
            in case r_callback (runs this ! r) of
                 None \<Rightarrow> settled
               | Some cb \<Rightarrow> run_callback cb settled)
      else this)"
| "deliver L (TaskStart task_name) this = emit L ''task_start'' task_name 0 (listeners this) this"
| "deliver L (TaskStop task_name duration) this =
     emit L ''task_stop'' task_name duration (listeners this) this"

subsection \<open>Actions and operations\<close>

text \<open>How an action that was called has ended.\<close>

datatype completion = Succeeded | Failed

text \<open>
  Modelled from the spec: the scheduler that calls the actions is in the
  \<^verbatim>\<open>orchestrator\<close> package, missing from the sources. For the spec an action has
  failed when it threw, when the promise it returned was rejected (a non-zero exit of
  a subprocess among them), or when it gave the callback an error.
\<close>

fun completion_of :: "shell_return \<Rightarrow> completion" where
  "completion_of (Threw e) = Failed"
| "completion_of (Promise (Resolved r)) = Succeeded"
| "completion_of (Promise (Rejected r)) = Failed"

fun run_action :: "lib \<Rightarrow> action \<Rightarrow> gue \<Rightarrow> completion \<times> gue" where
  "run_action L (ShellAction command value) this =
     (completion_of (fst (shell L command value this)), snd (shell L command value this))"
| "run_action L (SilentShellAction command value) this =
     (completion_of (fst (silentShell L command value this)), snd (silentShell L command value this))"
| "run_action L (PromiseAction err) this =
     ((case err of None \<Rightarrow> Succeeded | Some e \<Rightarrow> Failed), this)"
| "run_action L (CallbackAction err) this =
     ((case err of None \<Rightarrow> Succeeded | Some e \<Rightarrow> Failed), this)"

text \<open>
  Everything that changes the state after the constructor: a call of a method of the
  class (the inherited \<^verbatim>\<open>start\<close> included), a task's action being run, and an
  event being delivered. A call of \<^verbatim>\<open>task\<close> that throws leaves the state as it was.
\<close>

datatype op =
    Call_task string "string list option" "action option"
  | Call_shell string jsval
  | Call_silentShell string jsval
  | Call_watch "string list" "string list"
  | Call_setOption string jsval
  | Call_taskList
  | Call_log string "string option" "int option"
  | Call_errLog string "string option" "int option"
  | Call_u_shell string string jsval
  | Call_u_watch "string list" "string list"
  | Call_u_log string string "string option" "int option"
  | Call_start "string list"
  | Run_action action
  | Deliver event

fun apply_op :: "lib \<Rightarrow> op \<Rightarrow> gue \<Rightarrow> gue" where
  "apply_op L (Call_task name deps func) this =
     (case task name deps func this of Inl e \<Rightarrow> this | Inr this' \<Rightarrow> this')"
| "apply_op L (Call_shell command value) this = snd (shell L command value this)"
| "apply_op L (Call_silentShell command value) this = snd (silentShell L command value this)"
| "apply_op L (Call_watch glob task_list) this = snd (watch L glob task_list this)"
| "apply_op L (Call_setOption name value) this = setOption name value this"
| "apply_op L Call_taskList this = this"
| "apply_op L (Call_log message taskname duration) this = log L message taskname duration this"
| "apply_op L (Call_errLog message taskname duration) this = errLog L message taskname duration this"
| "apply_op L (Call_u_shell mode command values) this = snd (u_shell L mode command values this)"
| "apply_op L (Call_u_watch glob task_list) this = snd (u_watch glob task_list this)"
| "apply_op L (Call_u_log type message taskname duration) this =
     u_log L type message taskname duration this"
| "apply_op L (Call_start taskNames) this = start taskNames None this"
| "apply_op L (Run_action a) this = snd (run_action L a this)"
| "apply_op L (Deliver e) this = deliver L e this"

fun apply_ops :: "lib \<Rightarrow> op list \<Rightarrow> gue \<Rightarrow> gue" where
  "apply_ops L [] this = this"
| "apply_ops L (x # xs) this = apply_ops L xs (apply_op L x this)"

subsection \<open>The command line\<close>

text \<open>
  What \<^verbatim>\<open>liftoff\<close> passes to \<^verbatim>\<open>invoke\<close>, and the arguments as \<^verbatim>\<open>minimist\<close> has
  parsed them: \<open>positional\<close> is \<^verbatim>\<open>argv._\<close> and \<open>flag_l\<close> is \<^verbatim>\<open>argv.l\<close>.
  \<open>configPath\<close> is \<open>None\<close> when no configuration file was found, and
  \<open>modulePath\<close> is \<open>None\<close> when no local module was found: the fields are
  \<^verbatim>\<open>undefined\<close> then.
\<close>

record liftoff_env =
  configPath :: "string option"
  configBase :: string
  modulePath :: "string option"

record argv =
  positional :: "string list"
  flag_l :: jsval

definition process_exit :: "int \<Rightarrow> gue \<Rightarrow> gue" where
  "process_exit status this = this\<lparr>trace := trace this @ [ProcessExit status], exited := Some status\<rparr>"

text \<open>\<^verbatim>\<open>glueInst.on(name, listener)\<close>\<close>

definition emitter_on :: "string \<Rightarrow> listener \<Rightarrow> gue \<Rightarrow> gue" where
  "emitter_on name l this = this\<lparr>listeners := listeners this @ [(name, l)]\<rparr>"

text \<open>
  \<^verbatim>\<open>require(path)\<close> of the configuration file: the file is run, which is \<open>guefile\<close>,
  the effect of the user's file on the state; the file is one that loads without
  throwing.
\<close>

definition require_config :: "string \<Rightarrow> (gue \<Rightarrow> gue) \<Rightarrow> gue \<Rightarrow> gue" where
  "require_config path guefile this = guefile (this\<lparr>trace := trace this @ [Require path]\<rparr>)"

text \<open>
  \<^verbatim>\<open>require(env.modulePath)\<close>: the module is \<^verbatim>\<open>index.js\<close>, whose export is the one
  instance, \<^verbatim>\<open>module.exports = new Gue()\<close>. Called with \<^verbatim>\<open>undefined\<close> or with the
  empty string, \<^verbatim>\<open>require\<close> throws. A call that throws is \<open>Inl\<close> of the fault and
  of the state in which it was thrown.
\<close>

definition require_module :: "string option \<Rightarrow> gue \<Rightarrow> fault \<times> gue + gue" where
  "require_module path this =
     (case path of
        None \<Rightarrow> Inl (RequireWithoutPath, this)
      | Some m \<Rightarrow>
          if m = [] then Inl (RequireWithoutPath, this)
          else Inr (this\<lparr>trace := trace this @ [Require m]\<rparr>))"

text \<open>
  \<^verbatim>\<open>const actions = argv._; const actionList = actions.length ? actions : ['default'];\<close>
\<close>

definition actionList :: "argv \<Rightarrow> string list" where
  "actionList args =
     (let actions = positional args in if length actions \<noteq> 0 then actions else [''default''])"

text \<open>
  \<^verbatim>\<open>function invoke(env)\<close> of \<^verbatim>\<open>bin/gluey.js\<close>. \<^verbatim>\<open>process.exit\<close> ends the process:
  nothing after it runs. Nothing in \<^verbatim>\<open>invoke\<close> catches what \<^verbatim>\<open>require\<close> throws:
  the call ends there.
\<close>

definition invoke ::
  "lib \<Rightarrow> liftoff_env \<Rightarrow> argv \<Rightarrow> (gue \<Rightarrow> gue) \<Rightarrow> gue \<Rightarrow> fault \<times> gue + gue" where
  "invoke L cli args guefile this =
     (case (case configPath cli of None \<Rightarrow> None | Some p \<Rightarrow> if p = [] then None else Some p) of
        None \<Rightarrow> Inr (process_exit 1 (console_log (chalk_red L ''No gulpfile found'') this))
      | Some path \<Rightarrow>
          (let this1 = this\<lparr>env_PATH := configBase cli @ ''/node_modules/.bin:'' @ env_PATH this\<rparr>
           in case require_module (modulePath cli) (require_config path guefile this1) of
                Inl thrown \<Rightarrow> Inl thrown
              | Inr glueInst \<Rightarrow>
                  (let availableTasks = taskList glueInst
                   in Inr (if truthy (flag_l args)
                           then process_exit 0 (console_log (join [CHR 0x0A] availableTasks) glueInst)
                           else start (actionList args) None
                                  (emitter_on ''task_stop'' PrintFinished
                                     (emitter_on ''task_start'' PrintStarted glueInst))))))"

text \<open>
  The state in which \<^verbatim>\<open>invoke\<close> requires the module, when the configuration file
  was found at \<open>path\<close>: the search path is extended and the configuration file is
  loaded.
\<close>

definition configured :: "liftoff_env \<Rightarrow> string \<Rightarrow> (gue \<Rightarrow> gue) \<Rightarrow> gue \<Rightarrow> gue" where
  "configured cli path guefile this =
     require_config path guefile
       (this\<lparr>env_PATH := configBase cli @ ''/node_modules/.bin:'' @ env_PATH this\<rparr>)"

text \<open>
  The state in which \<^verbatim>\<open>invoke\<close> reads its arguments, when the module was found
  at \<open>m\<close> as well: the module is required.
\<close>

definition loaded :: "liftoff_env \<Rightarrow> string \<Rightarrow> string \<Rightarrow> (gue \<Rightarrow> gue) \<Rightarrow> gue \<Rightarrow> gue" where
  "loaded cli path m guefile this =
     (configured cli path guefile this)
       \<lparr>trace := trace (configured cli path guefile this) @ [Require m]\<rparr>"

subsection \<open>The process executor of the spec\<close>

text \<open>
  Modelled from the spec: the \<^verbatim>\<open>execa\<close> package is missing from the sources. The
  spec gives the process executor as \<^verbatim>\<open>run(command) -> Result{stdout, stderr,
  exitCode}\<close> or \<^verbatim>\<open>Failure{stdout, stderr, exitCode}\<close>, with success exactly for
  exit code 0 and a non-zero exit propagated as a rejected outcome carrying the
  captured output. \<open>subprocess\<close> is what the operating system makes of a command.
\<close>

definition execa_shell_spec ::
  "(string \<Rightarrow> shell_opts \<Rightarrow> execa_result) \<Rightarrow> string \<Rightarrow> shell_opts \<Rightarrow> execa_result settled" where
  "execa_shell_spec subprocess command opts =
     (if code (subprocess command opts) = 0
      then Resolved (subprocess command opts)
      else Rejected (subprocess command opts))"

subsection \<open>Reading the trace\<close>

fun is_console_log :: "effect \<Rightarrow> bool" where
  "is_console_log (ConsoleLog line) = True"
| "is_console_log e = False"

fun is_subscription :: "effect \<Rightarrow> bool" where
  "is_subscription (ChokidarWatch glob ignoreInitial) = True"
| "is_subscription e = False"

text \<open>A string that ends with a line feed.\<close>

definition ends_with_newline :: "string \<Rightarrow> bool" where
  "ends_with_newline s = (s \<noteq> [] \<and> last s = CHR 0x0A)"

subsection \<open>A watch cycle\<close>

text \<open>
  What can happen while a run goes on: the scheduler runs actions and emits
  \<^verbatim>\<open>task_start\<close> and \<^verbatim>\<open>task_stop\<close>, and the actions call the methods that run
  commands, log, set options and register tasks. The operations that make or end a
  subscription or a run are the others.
\<close>

fun during_run :: "op \<Rightarrow> bool" where
  "during_run (Run_action a) = True"
| "during_run (Deliver (TaskStart task_name)) = True"
| "during_run (Deliver (TaskStop task_name duration)) = True"
| "during_run (Deliver (FsEvent w event path)) = False"
| "during_run (Deliver (RunSettled r failed)) = False"
| "during_run (Call_task name deps func) = True"
| "during_run (Call_shell command value) = True"
| "during_run (Call_silentShell command value) = True"
| "during_run (Call_setOption name value) = True"
| "during_run Call_taskList = True"
| "during_run (Call_log message taskname duration) = True"
| "during_run (Call_errLog message taskname duration) = True"
| "during_run (Call_u_shell mode command values) = True"
| "during_run (Call_u_log type message taskname duration) = True"
| "during_run (Call_watch glob task_list) = False"
| "during_run (Call_u_watch glob task_list) = False"
| "during_run (Call_start taskNames) = False"

text \<open>
  One cycle of the watch loop: a file event on the watcher \<open>w\<close>, the run it starts,
  the operations \<open>ops\<close> while the run goes on, and the run settling, failed or not.
  The run the handler starts is the next one, at position \<open>length (runs this)\<close>.
\<close>

definition watch_cycle ::
  "lib \<Rightarrow> nat \<Rightarrow> string \<Rightarrow> string \<Rightarrow> op list \<Rightarrow> bool \<Rightarrow> gue \<Rightarrow> gue" where
  "watch_cycle L w event path ops failed this =
     deliver L (RunSettled (length (runs this)) failed)
       (apply_ops L ops
          (deliver L (FsEvent w event path) this))"

subsection \<open>An instance of the packages and a fresh runner, for evaluation\<close>

text \<open>
  What a name is bound to in an object: by a property of its own, or else along the
  prototype chain.
\<close>

fun property :: "jsval \<Rightarrow> string \<Rightarrow> jsval option" where
  "property (Obj ps) k = map_of ps k"
| "property (ObjProto ps p) k = (case map_of ps k of Some v \<Rightarrow> Some v | None \<Rightarrow> property p k)"
| "property Undefined k = None"
| "property Null k = None"
| "property (Bool b) k = None"
| "property (Num n) k = None"
| "property (Str s) k = None"

text \<open>
  Stand-ins for the packages on which the definitions can be evaluated: a renderer
  that appends the string bound to \<open>v\<close> to the command and throws when it is given no
  object, a subprocess that fails exactly for the command \<open>typo\<close> and echoes the
  command otherwise, a trimming that drops the line feeds at the end, and colours
  written as tags.
\<close>

definition example_lib :: lib where
  "example_lib =
     \<lparr>template = (\<lambda>pat command vars.
         case vars of
           Obj ps \<Rightarrow> (case map_of ps ''v'' of Some (Str s) \<Rightarrow> Inr (command @ s) | _ \<Rightarrow> Inr command)
         | ObjProto ps p \<Rightarrow>
             (case property vars ''v'' of Some (Str s) \<Rightarrow> Inr (command @ s) | _ \<Rightarrow> Inr command)
         | _ \<Rightarrow> Inl ''not an object''),
       execa_shell = (\<lambda>command opts.
         if command = ''typo''
         then Rejected \<lparr>stdout = [], stderr = ''typo: not found'' @ [CHR 0x0A], code = 127\<rparr>
         else Resolved \<lparr>stdout = command @ [CHR 0x0A], stderr = [], code = 0\<rparr>),
       trimNewlines = (\<lambda>s. rev (dropWhile (\<lambda>c. c = CHR 0x0A) (rev s))),
       chalk_red = (\<lambda>s. ''<red>'' @ s),
       chalk_cyan = (\<lambda>s. ''<cyan>'' @ s),
       chalk_white = (\<lambda>s. ''<white>'' @ s),
       chalk_bold_green = (\<lambda>s. ''<green>'' @ s),
       chalk_green = (\<lambda>s. ''<green>'' @ s),
       chalk_blue = (\<lambda>s. ''<blue>'' @ s),
       chalk_magenta = (\<lambda>s. ''<magenta>'' @ s),
       prettyMs = (\<lambda>d. ''ms'')\<rparr>"

text \<open>The instance right after \<^verbatim>\<open>new Gue()\<close>: no task, no watcher, no run.\<close>

definition example_gue :: gue where
  "example_gue =
     constructor \<lparr>exitCode = 7, options = [(''stale'', Null)], options_proto = None,
       tasks = [], watchers = [], runs = [], listeners = [], trace = [],
       env_PATH = ''/usr/bin'', exited = None\<rparr>"

text \<open>The subprocesses behind \<open>example_lib\<close>, as the operating system ends them.\<close>

definition example_subprocess :: "string \<Rightarrow> shell_opts \<Rightarrow> execa_result" where
  "example_subprocess command opts =
     (if command = ''typo''
      then \<lparr>stdout = [], stderr = ''typo: not found'' @ [CHR 0x0A], code = 127\<rparr>
      else \<lparr>stdout = command @ [CHR 0x0A], stderr = [], code = 0\<rparr>)"

text \<open>A sequence of operations that touches every part of the state.\<close>

definition example_ops :: "op list" where
  "example_ops =
     [Call_setOption ''v'' (Str ''woot''),
      Call_shell ''echo '' Undefined,
      Call_task ''lint'' None (Some (ShellAction ''jscs'' Undefined)),
      Call_watch [''src/*.js''] [''lint''],
      Deliver (FsEvent 0 ''change'' ''src/a.js''),
      Deliver (TaskStart ''lint''),
      Run_action (ShellAction ''jscs'' Undefined),
      Deliver (TaskStop ''lint'' 12),
      Deliver (RunSettled 0 False),
      Call_log ''done'' None None]"

text \<open>
  The configuration file of the README: an option, the task \<open>default\<close> over two
  tasks, one that succeeds and one that fails.
\<close>

definition example_guefile :: "gue \<Rightarrow> gue" where
  "example_guefile =
     apply_ops example_lib
       [Call_setOption ''testFiles'' (Str ''test/**/*.test.js''),
        Call_task ''default'' (Some [''coverage'', ''fail'']) None,
        Call_task ''coverage'' None (Some (ShellAction ''nyc mocha {{testFiles}}'' Undefined)),
        Call_task ''fail'' None (Some (ShellAction ''typo'' Undefined))]"

definition example_cli :: liftoff_env where
  "example_cli = \<lparr>configPath = Some ''/project/guefile.js'', configBase = ''/project'',
     modulePath = Some ''/project/node_modules/gue/index.js''\<rparr>"

text \<open>
  The runner after \<^verbatim>\<open>gue.watch('src/*.js', ['lint'])\<close>, with the listener for
  \<^verbatim>\<open>task_start\<close> attached.
\<close>

definition example_watching :: gue where
  "example_watching =
     snd (watch example_lib [''src/*.js''] [''lint'']
            (emitter_on ''task_start'' PrintStarted example_gue))"

text \<open>A run of the task \<open>lint\<close> whose command fails.\<close>

definition example_run :: "op list" where
  "example_run =
     [Deliver (TaskStart ''lint''),
      Run_action (ShellAction ''typo'' Undefined),
      Deliver (TaskStop ''lint'' 12)]"

section \<open>Properties\<close>

subsection \<open>What the logging methods change\<close>

lemma u_log_prints:
  "\<exists>ls. u_log L type message taskname duration this = this\<lparr>trace := trace this @ map ConsoleLog ls\<rparr>"
proof (cases "message = []")
  case True
  then have "u_log L type message taskname duration this = this\<lparr>trace := trace this @ map ConsoleLog []\<rparr>"
    by (simp add: u_log_def)
  then show ?thesis by blast
next
  case False
  then obtain c where "u_log L type message taskname duration this = console_log c this"
    by (simp add: u_log_def Let_def)
  then have "u_log L type message taskname duration this = this\<lparr>trace := trace this @ map ConsoleLog [c]\<rparr>"
    by (simp add: console_log_def)
  then show ?thesis by blast
qed

lemma log_prints:
  "\<exists>ls. log L message taskname duration this = this\<lparr>trace := trace this @ map ConsoleLog ls\<rparr>"
  unfolding log_def using u_log_prints by (cases "not_taskname taskname \<and> not_duration duration") simp_all

lemma errLog_prints:
  "\<exists>ls. errLog L message taskname duration this = this\<lparr>trace := trace this @ map ConsoleLog ls\<rparr>"
  unfolding errLog_def by (rule u_log_prints)

lemma report_prints:
  "\<exists>ls. log L out t d (errLog L err t' d' this) = this\<lparr>trace := trace this @ map ConsoleLog ls\<rparr>"
proof -
  obtain ls1 where 1: "errLog L err t' d' this = this\<lparr>trace := trace this @ map ConsoleLog ls1\<rparr>"
    using errLog_prints by blast
  obtain ls2 where 2: "log L out t d (errLog L err t' d' this)
      = (errLog L err t' d' this)\<lparr>trace := trace (errLog L err t' d' this) @ map ConsoleLog ls2\<rparr>"
    using log_prints by blast
  have "log L out t d (errLog L err t' d' this) = this\<lparr>trace := trace this @ map ConsoleLog (ls1 @ ls2)\<rparr>"
    by (subst 2, subst 1, subst 1) simp
  then show ?thesis by blast
qed

lemma errLog_line:
  "errLog L message None None this =
     this\<lparr>trace := trace this @ (if message = [] then [] else [ConsoleLog (chalk_red L message)])\<rparr>"
  by (simp add: errLog_def u_log_def console_log_def)

lemma log_line:
  "log L message None None this =
     this\<lparr>trace := trace this @ (if message = [] then [] else [ConsoleLog message])\<rparr>"
  by (simp add: log_def u_log_def console_log_def not_taskname_def not_duration_def)

lemma prints_no_subscription: "filter is_subscription (map ConsoleLog ls) = []"
  by (induction ls) simp_all

subsection \<open>What a shell command changes\<close>

text \<open>
  A call of \<^verbatim>\<open>_shell\<close> changes the exit-status flag and the trace and nothing else;
  it adds no subscription to the trace, and the flag stays or becomes 1.
\<close>

lemma u_shell_changes:
  "\<exists>es c. snd (u_shell L mode command values this) = this\<lparr>exitCode := c, trace := trace this @ es\<rparr>
      \<and> filter is_subscription es = [] \<and> (c = exitCode this \<or> c = 1)"
proof (cases "template L interpolate command (lodashVars values this)")
  case (Inl e)
  then have "snd (u_shell L mode command values this) = this\<lparr>exitCode := exitCode this, trace := trace this @ []\<rparr>"
    by (simp add: u_shell_def)
  then show ?thesis by (metis filter.simps(1))
next
  case (Inr cmd)
  define started where "started = this\<lparr>trace := trace this @ [ExecaShell cmd (shellOpts this)]\<rparr>"
  define c where "c = (case execa_shell L cmd (shellOpts this) of Resolved r \<Rightarrow> exitCode this | Rejected r \<Rightarrow> 1)"
  define base where "base = started\<lparr>exitCode := c\<rparr>"
  obtain r where r: "execa_shell L cmd (shellOpts this) = Resolved r \<or> execa_shell L cmd (shellOpts this) = Rejected r"
    by (cases "execa_shell L cmd (shellOpts this)") auto
  have u: "snd (u_shell L mode command values this) =
      (if mode = ''print''
       then log L (trimNewlines L (stdout r)) None None (errLog L (trimNewlines L (stderr r)) None None base)
       else base)"
    using Inr r by (auto simp: u_shell_def base_def started_def c_def)
  have c: "c = exitCode this \<or> c = 1"
    using r by (auto simp: c_def)
  show ?thesis
  proof (cases "mode = ''print''")
    case True
    obtain ls where "log L (trimNewlines L (stdout r)) None None (errLog L (trimNewlines L (stderr r)) None None base)
        = base\<lparr>trace := trace base @ map ConsoleLog ls\<rparr>"
      using report_prints by blast
    with u True have "snd (u_shell L mode command values this) =
        this\<lparr>exitCode := c, trace := trace this @ (ExecaShell cmd (shellOpts this) # map ConsoleLog ls)\<rparr>"
      by (simp add: base_def started_def)
    moreover have "filter is_subscription (ExecaShell cmd (shellOpts this) # map ConsoleLog ls) = []"
      by (simp add: prints_no_subscription)
    ultimately show ?thesis using c by blast
  next
    case False
    with u have "snd (u_shell L mode command values this) =
        this\<lparr>exitCode := c, trace := trace this @ [ExecaShell cmd (shellOpts this)]\<rparr>"
      by (simp add: base_def started_def)
    moreover have "filter is_subscription [ExecaShell cmd (shellOpts this)] = []"
      by simp
    ultimately show ?thesis using c by blast
  qed
qed

lemma u_shell_exitCode:
  "exitCode (snd (u_shell L mode command values this)) = exitCode this \<or>
   exitCode (snd (u_shell L mode command values this)) = 1"
  using u_shell_changes [of L mode command "values" this] by auto

lemma u_shell_tasks: "tasks (snd (u_shell L mode command values this)) = tasks this"
proof -
  obtain es c where "snd (u_shell L mode command values this) = this\<lparr>exitCode := c, trace := trace this @ es\<rparr>"
    using u_shell_changes by blast
  then show ?thesis by simp
qed

lemma u_shell_rejected:
  assumes "fst (u_shell L mode command values this) = Promise (Rejected r)"
  shows "exitCode (snd (u_shell L mode command values this)) = 1"
proof -
  obtain cmd where cmd: "template L interpolate command (lodashVars values this) = Inr cmd"
    using assms by (cases "template L interpolate command (lodashVars values this)") (auto simp: u_shell_def)
  have rej: "execa_shell L cmd (shellOpts this) = Rejected r"
    using assms cmd by (cases "execa_shell L cmd (shellOpts this)") (auto simp: u_shell_def Let_def)
  obtain ls where "log L (trimNewlines L (stdout r)) None None
          (errLog L (trimNewlines L (stderr r)) None None
             (this\<lparr>trace := trace this @ [ExecaShell cmd (shellOpts this)], exitCode := 1\<rparr>))
       = (this\<lparr>trace := trace this @ [ExecaShell cmd (shellOpts this)], exitCode := 1\<rparr>)
           \<lparr>trace := trace (this\<lparr>trace := trace this @ [ExecaShell cmd (shellOpts this)], exitCode := 1\<rparr>) @ map ConsoleLog ls\<rparr>"
    using report_prints by blast
  then show ?thesis using cmd rej by (simp add: u_shell_def Let_def)
qed

lemma u_shell_threw:
  assumes "fst (u_shell L mode command values this) = Threw e"
  shows "snd (u_shell L mode command values this) = this"
proof (cases "template L interpolate command (lodashVars values this)")
  case (Inl e')
  then show ?thesis by (simp add: u_shell_def)
next
  case (Inr cmd)
  then have "\<exists>s. fst (u_shell L mode command values this) = Promise s"
    by (cases "execa_shell L cmd (shellOpts this)") (simp_all add: u_shell_def Let_def)
  with assms show ?thesis by simp
qed

lemma u_shell_started:
  assumes "template L interpolate command (lodashVars values this) = Inr cmd"
  shows "\<exists>rest. trace (snd (u_shell L mode command values this)) =
           trace this @ ExecaShell cmd (shellOpts this) # rest"
proof -
  define started where "started = this\<lparr>trace := trace this @ [ExecaShell cmd (shellOpts this)]\<rparr>"
  obtain r where r: "execa_shell L cmd (shellOpts this) = Resolved r \<or> execa_shell L cmd (shellOpts this) = Rejected r"
    by (cases "execa_shell L cmd (shellOpts this)") auto
  define base where "base = (if execa_shell L cmd (shellOpts this) = Resolved r then started else started\<lparr>exitCode := 1\<rparr>)"
  have u: "snd (u_shell L mode command values this) =
      (if mode = ''print''
       then log L (trimNewlines L (stdout r)) None None (errLog L (trimNewlines L (stderr r)) None None base)
       else base)"
    using assms r by (auto simp: u_shell_def base_def started_def)
  have b: "trace base = trace this @ [ExecaShell cmd (shellOpts this)]"
    by (simp add: base_def started_def)
  obtain ls where "log L (trimNewlines L (stdout r)) None None (errLog L (trimNewlines L (stderr r)) None None base)
        = base\<lparr>trace := trace base @ map ConsoleLog ls\<rparr>"
    using report_prints by blast
  with u b have "trace (snd (u_shell L mode command values this)) =
      trace this @ ExecaShell cmd (shellOpts this) # (if mode = ''print'' then map ConsoleLog ls else [])"
    by simp
  then show ?thesis by blast
qed

lemma shell_settled:
  assumes "template L interpolate command (lodashVars value this) = Inr cmd"
    and "execa_shell L cmd (shellOpts this) = Resolved r \<or> execa_shell L cmd (shellOpts this) = Rejected r"
  shows "snd (shell L command value this) =
     log L (trimNewlines L (stdout r)) None None
       (errLog L (trimNewlines L (stderr r)) None None
          (this\<lparr>trace := trace this @ [ExecaShell cmd (shellOpts this)],
                exitCode := (if execa_shell L cmd (shellOpts this) = Resolved r then exitCode this else 1)\<rparr>))"
  using assms by (auto simp: shell_def u_shell_def Let_def)

subsection \<open>What the other operations change\<close>

lemma u_log_exitCode: "exitCode (u_log L type message taskname duration this) = exitCode this"
  using u_log_prints [of L type message taskname duration this] by auto

lemma log_exitCode: "exitCode (log L message taskname duration this) = exitCode this"
  using log_prints [of L message taskname duration this] by auto

lemma errLog_exitCode: "exitCode (errLog L message taskname duration this) = exitCode this"
  using errLog_prints [of L message taskname duration this] by auto

lemma u_log_tasks: "tasks (u_log L type message taskname duration this) = tasks this"
  using u_log_prints [of L type message taskname duration this] by auto

lemma log_tasks: "tasks (log L message taskname duration this) = tasks this"
  using log_prints [of L message taskname duration this] by auto

lemma errLog_tasks: "tasks (errLog L message taskname duration this) = tasks this"
  using errLog_prints [of L message taskname duration this] by auto

lemma run_action_changes:
  "\<exists>es c. snd (run_action L a this) = this\<lparr>exitCode := c, trace := trace this @ es\<rparr>
      \<and> filter is_subscription es = [] \<and> (c = exitCode this \<or> c = 1)"
proof (cases a)
  case (ShellAction c v)
  then show ?thesis
    using u_shell_changes [of L "''print''" c v this] by (auto simp: shell_def)
next
  case (SilentShellAction c v)
  then show ?thesis
    using u_shell_changes [of L "''silent''" c v this] by (auto simp: silentShell_def)
next
  case (PromiseAction err)
  then have "snd (run_action L a this) = this\<lparr>exitCode := exitCode this, trace := trace this @ []\<rparr>"
    by simp
  then show ?thesis by (metis filter.simps(1))
next
  case (CallbackAction err)
  then have "snd (run_action L a this) = this\<lparr>exitCode := exitCode this, trace := trace this @ []\<rparr>"
    by simp
  then show ?thesis by (metis filter.simps(1))
qed

lemma run_action_exitCode:
  "exitCode (snd (run_action L a this)) = exitCode this \<or> exitCode (snd (run_action L a this)) = 1"
  using run_action_changes [of L a this] by auto

lemma run_action_tasks: "tasks (snd (run_action L a this)) = tasks this"
proof -
  obtain es c where "snd (run_action L a this) = this\<lparr>exitCode := c, trace := trace this @ es\<rparr>"
    using run_action_changes by blast
  then show ?thesis by simp
qed

lemma emit_prints:
  "\<exists>lines. emit L name task_name duration ls this = this\<lparr>trace := trace this @ map ConsoleLog lines\<rparr>"
proof (induction ls arbitrary: this)
  case Nil
  have "emit L name task_name duration [] this = this\<lparr>trace := trace this @ map ConsoleLog []\<rparr>"
    by simp
  then show ?case by blast
next
  case (Cons nl ls)
  obtain n l where nl: "nl = (n, l)" by (cases nl)
  define s where "s = (if n = name then call_listener L l task_name duration this else this)"
  have "\<exists>c. s = this\<lparr>trace := trace this @ map ConsoleLog c\<rparr>"
  proof (cases "n = name")
    case True
    then obtain line where "s = this\<lparr>trace := trace this @ map ConsoleLog [line]\<rparr>"
      by (cases l) (simp_all add: s_def console_log_def)
    then show ?thesis by blast
  next
    case False
    then have "s = this\<lparr>trace := trace this @ map ConsoleLog []\<rparr>"
      by (simp add: s_def)
    then show ?thesis by blast
  qed
  then obtain c where c: "s = this\<lparr>trace := trace this @ map ConsoleLog c\<rparr>"
    by blast
  obtain lines where "emit L name task_name duration ls s = s\<lparr>trace := trace s @ map ConsoleLog lines\<rparr>"
    using Cons.IH by blast
  then have "emit L name task_name duration (nl # ls) this =
      this\<lparr>trace := trace this @ map ConsoleLog (c @ lines)\<rparr>"
    by (simp add: nl s_def [symmetric]) (simp add: c)
  then show ?case by blast
qed

lemma deliver_exitCode: "exitCode (deliver L e this) = exitCode this"
proof (cases e)
  case (FsEvent w ev path)
  then show ?thesis
    by (simp add: on_all_def start_def watcher_close_def log_exitCode)
next
  case (RunSettled r failed)
  show ?thesis
  proof (cases "r_callback (runs this ! r)")
    case None
    with RunSettled show ?thesis by simp
  next
    case (Some cb)
    with RunSettled show ?thesis by (cases cb) (simp add: u_watch_def)
  qed
next
  case (TaskStart t)
  then show ?thesis
    using emit_prints [of L "''task_start''" t 0 "listeners this" this] by auto
next
  case (TaskStop t d)
  then show ?thesis
    using emit_prints [of L "''task_stop''" t d "listeners this" this] by auto
qed

lemma deliver_tasks: "tasks (deliver L e this) = tasks this"
proof (cases e)
  case (FsEvent w ev path)
  then show ?thesis
    by (simp add: on_all_def start_def watcher_close_def log_tasks)
next
  case (RunSettled r failed)
  show ?thesis
  proof (cases "r_callback (runs this ! r)")
    case None
    with RunSettled show ?thesis by simp
  next
    case (Some cb)
    with RunSettled show ?thesis by (cases cb) (simp add: u_watch_def)
  qed
next
  case (TaskStart t)
  then show ?thesis
    using emit_prints [of L "''task_start''" t 0 "listeners this" this] by auto
next
  case (TaskStop t d)
  then show ?thesis
    using emit_prints [of L "''task_stop''" t d "listeners this" this] by auto
qed

lemma apply_op_exitCode:
  "exitCode (apply_op L x this) = exitCode this \<or> exitCode (apply_op L x this) = 1"
proof (cases x)
  case (Call_task name deps func)
  then show ?thesis by (simp add: task_def add_def)
next
  case (Run_action a)
  then show ?thesis by (simp add: run_action_exitCode)
next
  case (Deliver e)
  then show ?thesis by (simp add: deliver_exitCode)
qed (simp_all add: shell_def silentShell_def u_shell_exitCode watch_def u_watch_def setOption_def
      log_exitCode errLog_exitCode u_log_exitCode start_def)

lemma apply_ops_exitCode:
  "exitCode this \<noteq> 0 \<Longrightarrow> exitCode (apply_ops L xs this) \<noteq> 0"
proof (induction xs arbitrary: this)
  case Nil
  then show ?case by simp
next
  case (Cons x xs)
  have "exitCode (apply_op L x this) \<noteq> 0"
    using apply_op_exitCode [of L x this] Cons.prems by auto
  then show ?case using Cons.IH by simp
qed

subsection \<open>What happens during a run\<close>

text \<open>
  An operation that can happen while a run goes on leaves the watchers and the runs
  as they are, does not end the process, and adds no subscription to the trace.
\<close>

lemma prints_frame:
  assumes "\<exists>ls. s' = s\<lparr>trace := trace s @ map ConsoleLog ls\<rparr>"
  shows "\<exists>es. watchers s' = watchers s \<and> runs s' = runs s \<and> exited s' = exited s \<and>
           trace s' = trace s @ es \<and> filter is_subscription es = []"
proof -
  obtain ls where "s' = s\<lparr>trace := trace s @ map ConsoleLog ls\<rparr>"
    using assms by blast
  then have "watchers s' = watchers s \<and> runs s' = runs s \<and> exited s' = exited s \<and>
           trace s' = trace s @ map ConsoleLog ls \<and> filter is_subscription (map ConsoleLog ls) = []"
    by (simp add: prints_no_subscription)
  then show ?thesis by blast
qed

lemma changes_frame:
  assumes "\<exists>es c. s' = s\<lparr>exitCode := c, trace := trace s @ es\<rparr> \<and> filter is_subscription es = [] \<and> P c"
  shows "\<exists>es. watchers s' = watchers s \<and> runs s' = runs s \<and> exited s' = exited s \<and>
           trace s' = trace s @ es \<and> filter is_subscription es = []"
proof -
  obtain es c where "s' = s\<lparr>exitCode := c, trace := trace s @ es\<rparr>" and "filter is_subscription es = []"
    using assms by blast
  then have "watchers s' = watchers s \<and> runs s' = runs s \<and> exited s' = exited s \<and>
           trace s' = trace s @ es \<and> filter is_subscription es = []"
    by simp
  then show ?thesis by blast
qed

lemma silent_frame:
  assumes "watchers s' = watchers s" "runs s' = runs s" "exited s' = exited s" "trace s' = trace s"
  shows "\<exists>es. watchers s' = watchers s \<and> runs s' = runs s \<and> exited s' = exited s \<and>
           trace s' = trace s @ es \<and> filter is_subscription es = []"
  using assms by (metis append_Nil2 filter.simps(1))

lemma during_run_frame:
  assumes "during_run x"
  shows "\<exists>es. watchers (apply_op L x s) = watchers s \<and> runs (apply_op L x s) = runs s \<and>
           exited (apply_op L x s) = exited s \<and>
           trace (apply_op L x s) = trace s @ es \<and> filter is_subscription es = []"
proof (cases x)
  case (Call_task name deps func)
  show ?thesis unfolding Call_task
    by (rule silent_frame) (simp_all add: task_def add_def)
next
  case (Call_shell c v)
  show ?thesis unfolding Call_shell apply_op.simps shell_def
    by (rule changes_frame) (rule u_shell_changes)
next
  case (Call_silentShell c v)
  show ?thesis unfolding Call_silentShell apply_op.simps silentShell_def
    by (rule changes_frame) (rule u_shell_changes)
next
  case (Call_watch g t)
  with assms show ?thesis by simp
next
  case (Call_setOption n v)
  show ?thesis unfolding Call_setOption
    by (rule silent_frame) (simp_all add: setOption_def)
next
  case Call_taskList
  show ?thesis unfolding Call_taskList
    by (rule silent_frame) simp_all
next
  case (Call_log m t d)
  show ?thesis unfolding Call_log apply_op.simps
    by (rule prints_frame) (rule log_prints)
next
  case (Call_errLog m t d)
  show ?thesis unfolding Call_errLog apply_op.simps
    by (rule prints_frame) (rule errLog_prints)
next
  case (Call_u_shell m c v)
  show ?thesis unfolding Call_u_shell apply_op.simps
    by (rule changes_frame) (rule u_shell_changes)
next
  case (Call_u_watch g t)
  with assms show ?thesis by simp
next
  case (Call_u_log ty m t d)
  show ?thesis unfolding Call_u_log apply_op.simps
    by (rule prints_frame) (rule u_log_prints)
next
  case (Call_start t)
  with assms show ?thesis by simp
next
  case (Run_action a)
  show ?thesis unfolding Run_action apply_op.simps
    by (rule changes_frame) (rule run_action_changes)
next
  case (Deliver e)
  show ?thesis
  proof (cases e)
    case (FsEvent w ev p)
    with Deliver assms show ?thesis by simp
  next
    case (RunSettled r f)
    with Deliver assms show ?thesis by simp
  next
    case (TaskStart t)
    show ?thesis unfolding Deliver TaskStart apply_op.simps deliver.simps
      by (rule prints_frame) (rule emit_prints)
  next
    case (TaskStop t d)
    show ?thesis unfolding Deliver TaskStop apply_op.simps deliver.simps
      by (rule prints_frame) (rule emit_prints)
  qed
qed

lemma during_run_ops_frame:
  assumes "list_all during_run xs"
  shows "\<exists>es. watchers (apply_ops L xs s) = watchers s \<and> runs (apply_ops L xs s) = runs s \<and>
           exited (apply_ops L xs s) = exited s \<and>
           trace (apply_ops L xs s) = trace s @ es \<and> filter is_subscription es = []"
  using assms
proof (induction xs arbitrary: s)
  case Nil
  show ?case by (rule silent_frame) simp_all
next
  case (Cons x xs)
  then have x: "during_run x" and xs: "list_all during_run xs"
    by simp_all
  obtain es1 where 1: "watchers (apply_op L x s) = watchers s" "runs (apply_op L x s) = runs s"
      "exited (apply_op L x s) = exited s" "trace (apply_op L x s) = trace s @ es1"
      "filter is_subscription es1 = []"
    using during_run_frame [OF x] by blast
  obtain es2 where 2: "watchers (apply_ops L xs (apply_op L x s)) = watchers (apply_op L x s)"
      "runs (apply_ops L xs (apply_op L x s)) = runs (apply_op L x s)"
      "exited (apply_ops L xs (apply_op L x s)) = exited (apply_op L x s)"
      "trace (apply_ops L xs (apply_op L x s)) = trace (apply_op L x s) @ es2"
      "filter is_subscription es2 = []"
    using Cons.IH [OF xs] by blast
  have "watchers (apply_ops L (x # xs) s) = watchers s \<and> runs (apply_ops L (x # xs) s) = runs s \<and>
           exited (apply_ops L (x # xs) s) = exited s \<and>
           trace (apply_ops L (x # xs) s) = trace s @ (es1 @ es2) \<and> filter is_subscription (es1 @ es2) = []"
    using 1 2 by simp
  then show ?case by blast
qed

subsection \<open>Objects as property lists\<close>

lemma obj_set_keys:
  "map fst (obj_set k v ps) = (if k \<in> set (map fst ps) then map fst ps else map fst ps @ [k])"
  by (induction ps) (force+)

lemma obj_set_distinct: "distinct (map fst ps) \<Longrightarrow> distinct (map fst (obj_set k v ps))"
  by (simp add: obj_set_keys)

lemma obj_set_entry:
  "distinct (map fst ps) \<Longrightarrow> filter (\<lambda>e. fst e = k) (obj_set k v ps) = [(k, v)]"
proof (induction ps)
  case Nil
  then show ?case by simp
next
  case (Cons p ps)
  show ?case
  proof (cases "fst p = k")
    case True
    then have "k \<notin> fst ` set ps"
      using Cons.prems by auto
    then have "filter (\<lambda>e. fst e = k) ps = []"
      by (auto simp: filter_empty_conv)
    with True show ?thesis by (cases p) simp
  next
    case False
    then show ?thesis using Cons by (cases p) simp
  qed
qed

lemma map_of_obj_set: "map_of (obj_set k v ps) = (map_of ps)(k \<mapsto> v)"
  by (induction ps) (auto simp: fun_eq_iff)

lemma apply_op_distinct:
  "distinct (taskList this) \<Longrightarrow> distinct (taskList (apply_op L x this))"
proof (cases x)
  case (Call_task name deps func)
  assume "distinct (taskList this)"
  with Call_task show ?thesis
    by (simp add: task_def add_def taskList_def obj_set_distinct)
next
  case (Run_action a)
  assume "distinct (taskList this)"
  with Run_action show ?thesis by (simp add: taskList_def run_action_tasks)
next
  case (Deliver e)
  assume "distinct (taskList this)"
  with Deliver show ?thesis by (simp add: taskList_def deliver_tasks)
qed (simp_all add: taskList_def shell_def silentShell_def u_shell_tasks watch_def u_watch_def
      setOption_def log_tasks errLog_tasks u_log_tasks start_def)

lemma apply_ops_distinct:
  "distinct (taskList this) \<Longrightarrow> distinct (taskList (apply_ops L xs this))"
  by (induction xs arbitrary: this) (simp_all add: apply_op_distinct)

subsection \<open>File events\<close>

lemma fs_event_live:
  assumes "w < length (watchers this)" and "\<not> w_closed (watchers this ! w)"
  shows "\<exists>lines. deliver L (FsEvent w event path) this =
      this\<lparr>trace := trace this @ map ConsoleLog lines @
               [WatcherClose w, OrchestratorStart (w_taskList (watchers this ! w))],
           watchers := (watchers this)[w := (watchers this ! w)\<lparr>w_closed := True\<rparr>],
           runs := runs this @
             [\<lparr>r_tasks = w_taskList (watchers this ! w),
               r_callback = Some (Rewatch (w_glob (watchers this ! w)) (w_taskList (watchers this ! w))),
               r_settled = False,
               r_fault = start_fault (tasks this) (w_taskList (watchers this ! w))\<rparr>]\<rparr>"
proof -
  define s1 where "s1 = log L [CHR 0x0A] None None this"
  define s2 where "s2 = log L (path @ '' '' @ event) (Some ''watch'') None s1"
  have d: "deliver L (FsEvent w event path) this =
      start (w_taskList (watchers this ! w))
        (Some (Rewatch (w_glob (watchers this ! w)) (w_taskList (watchers this ! w))))
        (watcher_close w s2)"
    using assms by (simp add: on_all_def s1_def s2_def)
  obtain ls1 where 1: "s1 = this\<lparr>trace := trace this @ map ConsoleLog ls1\<rparr>"
    unfolding s1_def using log_prints by blast
  obtain ls2 where 2: "s2 = s1\<lparr>trace := trace s1 @ map ConsoleLog ls2\<rparr>"
    unfolding s2_def using log_prints by blast
  have "deliver L (FsEvent w event path) this =
      this\<lparr>trace := trace this @ map ConsoleLog (ls1 @ ls2) @
               [WatcherClose w, OrchestratorStart (w_taskList (watchers this ! w))],
           watchers := (watchers this)[w := (watchers this ! w)\<lparr>w_closed := True\<rparr>],
           runs := runs this @
             [\<lparr>r_tasks = w_taskList (watchers this ! w),
               r_callback = Some (Rewatch (w_glob (watchers this ! w)) (w_taskList (watchers this ! w))),
               r_settled = False,
               r_fault = start_fault (tasks this) (w_taskList (watchers this ! w))\<rparr>]\<rparr>"
    unfolding d by (simp add: start_def watcher_close_def 2 1)
  then show ?thesis by blast
qed

lemma fs_event_closed:
  assumes "w < length (watchers this)" and "w_closed (watchers this ! w)"
  shows "deliver L (FsEvent w event path) this = this"
  using assms by simp

subsection \<open>The stand-in for trim-newlines\<close>

lemma example_trim: "\<not> ends_with_newline (trimNewlines example_lib s)"
proof -
  let ?d = "dropWhile (\<lambda>c. c = CHR 0x0A) (rev s)"
  have "?d \<noteq> [] \<Longrightarrow> hd ?d \<noteq> CHR 0x0A"
    using hd_dropWhile [of "\<lambda>c. c = CHR 0x0A" "rev s"] by simp
  then have "rev ?d \<noteq> [] \<Longrightarrow> last (rev ?d) \<noteq> CHR 0x0A"
    by (simp add: last_rev)
  then show ?thesis
    by (auto simp: ends_with_newline_def example_lib_def)
qed

subsection \<open>Runs the scheduler refuses\<close>

lemma start_fault_unknown:
  assumes "n \<in> set names" and "map_of reg n = None"
  shows "\<exists>u. start_fault reg names = Some (UnknownTask u)"
proof -
  define found where "found = concat (map (faults reg []) names)"
  have "faults reg [] n = [UnknownTask n]"
    using assms(2) by (simp add: faults.simps)
  then have "UnknownTask n \<in> set found"
    using assms(1) unfolding found_def by force
  then have "UnknownTask n \<in> set (filter is_unknown found)"
    by simp
  then obtain f fs where c: "filter is_unknown found = f # fs"
    by (cases "filter is_unknown found") auto
  then have "f \<in> set (filter is_unknown found)"
    by simp
  then have "is_unknown f"
    by simp
  then obtain u where "f = UnknownTask u"
    by (cases f) auto
  with c show ?thesis
    by (simp add: start_fault_def found_def)
qed

lemma depends_iff:
  "(a, b) \<in> depends reg \<longleftrightarrow> (\<exists>t. map_of reg a = Some t \<and> b \<in> set (dependencies t))"
  by (simp add: depends_def)

lemma faults_none_sound:
  "faults reg path n = [] \<Longrightarrow> (n, m) \<in> (depends reg)\<^sup>* \<Longrightarrow>
     m \<notin> set path \<and> map_of reg m \<noteq> None \<and> (m, m) \<notin> (depends reg)\<^sup>+"
proof (induction reg path n arbitrary: m rule: faults.induct)
  case (1 reg path n)
  from "1.prems"(1) obtain t where t: "map_of reg n = Some t"
    by (cases "map_of reg n") (simp_all add: faults.simps)
  with "1.prems"(1) have np: "n \<notin> set path"
    by (auto simp: faults.simps split: if_splits)
  from t np "1.prems"(1) have ds: "\<forall>d\<in>set (dependencies t). faults reg (n # path) d = []"
    by (simp add: faults.simps)
  have below: "m' \<notin> set (n # path) \<and> map_of reg m' \<noteq> None \<and> (m', m') \<notin> (depends reg)\<^sup>+"
    if "(n, d) \<in> depends reg" and "(d, m') \<in> (depends reg)\<^sup>*" for d m'
  proof -
    from that(1) t have "d \<in> set (dependencies t)"
      by (simp add: depends_iff)
    with ds have "faults reg (n # path) d = []"
      by blast
    with "1.IH" [OF t np \<open>d \<in> set (dependencies t)\<close> _ that(2)] show ?thesis
      by blast
  qed
  show ?case
  proof (cases "m = n")
    case True
    have "(n, n) \<notin> (depends reg)\<^sup>+"
    proof
      assume "(n, n) \<in> (depends reg)\<^sup>+"
      then obtain d where "(n, d) \<in> depends reg" "(d, n) \<in> (depends reg)\<^sup>*"
        by (meson tranclD)
      then have "n \<notin> set (n # path)"
        using below by blast
      then show False by simp
    qed
    with True t np show ?thesis by simp
  next
    case False
    with "1.prems"(2) obtain d where "(n, d) \<in> depends reg" "(d, m) \<in> (depends reg)\<^sup>*"
      by (auto elim: converse_rtranclE)
    then show ?thesis
      using below by fastforce
  qed
qed

lemma faults_none_complete:
  "(\<forall>m. (n, m) \<in> (depends reg)\<^sup>* \<longrightarrow> map_of reg m \<noteq> None \<and> (m, m) \<notin> (depends reg)\<^sup>+) \<Longrightarrow>
   (\<forall>p\<in>set path. (p, n) \<in> (depends reg)\<^sup>+) \<Longrightarrow>
   faults reg path n = []"
proof (induction reg path n rule: faults.induct)
  case (1 reg path n)
  from "1.prems"(1) obtain t where t: "map_of reg n = Some t"
    by (cases "map_of reg n") auto
  have np: "n \<notin> set path"
  proof
    assume "n \<in> set path"
    with "1.prems"(2) have "(n, n) \<in> (depends reg)\<^sup>+" by blast
    with "1.prems"(1) show False by blast
  qed
  have "faults reg (n # path) d = []" if d: "d \<in> set (dependencies t)" for d
  proof (rule "1.IH" [OF t np d])
    from d t have e: "(n, d) \<in> depends reg"
      by (auto simp: depends_iff)
    show "\<forall>m. (d, m) \<in> (depends reg)\<^sup>* \<longrightarrow> map_of reg m \<noteq> None \<and> (m, m) \<notin> (depends reg)\<^sup>+"
      using "1.prems"(1) e by (meson converse_rtrancl_into_rtrancl)
    show "\<forall>p\<in>set (n # path). (p, d) \<in> (depends reg)\<^sup>+"
      using "1.prems"(2) e by (auto intro: trancl_into_trancl)
  qed
  with t np show ?case
    by (simp add: faults.simps)
qed

lemma start_fault_none:
  "start_fault reg names = None \<longleftrightarrow>
     (\<forall>n\<in>set names. \<forall>m. (n, m) \<in> (depends reg)\<^sup>* \<longrightarrow>
        map_of reg m \<noteq> None \<and> (m, m) \<notin> (depends reg)\<^sup>+)"
proof -
  define found where "found = concat (map (faults reg []) names)"
  have "start_fault reg names = None \<longleftrightarrow> found = []"
    by (cases found; cases "filter is_unknown found")
       (simp_all add: start_fault_def found_def [symmetric])
  also have "\<dots> \<longleftrightarrow> (\<forall>n\<in>set names. faults reg [] n = [])"
    by (simp add: found_def)
  also have "\<dots> \<longleftrightarrow> (\<forall>n\<in>set names. \<forall>m. (n, m) \<in> (depends reg)\<^sup>* \<longrightarrow>
        map_of reg m \<noteq> None \<and> (m, m) \<notin> (depends reg)\<^sup>+)"
    using faults_none_sound [of reg "[]"] faults_none_complete [of _ reg "[]"]
    by (metis empty_iff empty_set)
  finally show ?thesis .
qed

section \<open>The claims\<close>

subsection \<open>The exit-status flag\<close>

text \<open>
  Claim C2, as amended. The flag is 0 after the constructor. It is 1 after every call
  of \<^verbatim>\<open>shell\<close> or \<^verbatim>\<open>silentShell\<close> whose promise is rejected; a call that throws
  while rendering changes nothing, and an action that fails through a promise or a
  callback of its own leaves the flag as it was. Every operation on the runner leaves
  the flag unchanged or sets it to 1, so that a flag that is not 0 stays so through
  any sequence of operations.
\<close>

theorem exitCode_starts_zero_and_is_only_raised:
  "exitCode (constructor fresh) = 0 \<and>
   (fst (shell L command value this) = Promise (Rejected r) \<longrightarrow>
      exitCode (snd (shell L command value this)) = 1) \<and>
   (fst (silentShell L command value this) = Promise (Rejected r) \<longrightarrow>
      exitCode (snd (silentShell L command value this)) = 1) \<and>
   (fst (u_shell L mode command value this) = Threw e \<longrightarrow>
      snd (u_shell L mode command value this) = this) \<and>
   exitCode (snd (run_action L (PromiseAction err) this)) = exitCode this \<and>
   exitCode (snd (run_action L (CallbackAction err) this)) = exitCode this \<and>
   (exitCode (apply_op L x that) = exitCode that \<or> exitCode (apply_op L x that) = 1) \<and>
   (exitCode that \<noteq> 0 \<longrightarrow> exitCode (apply_ops L xs that) \<noteq> 0)"
proof -
  have "exitCode (constructor fresh) = 0"
    by (simp add: constructor_def)
  moreover have "fst (shell L command value this) = Promise (Rejected r) \<longrightarrow>
      exitCode (snd (shell L command value this)) = 1"
    unfolding shell_def using u_shell_rejected by blast
  moreover have "fst (silentShell L command value this) = Promise (Rejected r) \<longrightarrow>
      exitCode (snd (silentShell L command value this)) = 1"
    unfolding silentShell_def using u_shell_rejected by blast
  moreover have "fst (u_shell L mode command value this) = Threw e \<longrightarrow>
      snd (u_shell L mode command value this) = this"
    using u_shell_threw by blast
  moreover have "exitCode (snd (run_action L (PromiseAction err) this)) = exitCode this"
    by simp
  moreover have "exitCode (snd (run_action L (CallbackAction err) this)) = exitCode this"
    by simp
  moreover note apply_op_exitCode [of L x that]
  moreover have "exitCode that \<noteq> 0 \<longrightarrow> exitCode (apply_ops L xs that) \<noteq> 0"
    using apply_ops_exitCode by blast
  ultimately show ?thesis by blast
qed

theorem exitCode_starts_zero_and_is_only_raised_witness:
  "exitCode example_gue = 0 \<and>
   fst (shell example_lib ''typo'' Undefined example_gue) =
     Promise (Rejected \<lparr>stdout = [], stderr = ''typo: not found'' @ [CHR 0x0A], code = 127\<rparr>) \<and>
   exitCode (snd (shell example_lib ''typo'' Undefined example_gue)) = 1 \<and>
   fst (silentShell example_lib ''typo'' Undefined example_gue) =
     Promise (Rejected \<lparr>stdout = [], stderr = ''typo: not found'' @ [CHR 0x0A], code = 127\<rparr>) \<and>
   exitCode (snd (silentShell example_lib ''typo'' Undefined example_gue)) = 1 \<and>
   fst (u_shell example_lib ''print'' ''typo'' (Num 3) example_gue) = Threw ''not an object'' \<and>
   snd (u_shell example_lib ''print'' ''typo'' (Num 3) example_gue) = example_gue \<and>
   exitCode (snd (shell example_lib ''typo'' Undefined example_gue)) \<noteq> 0 \<and>
   exitCode (apply_op example_lib (Call_shell ''echo '' Undefined)
     (snd (shell example_lib ''typo'' Undefined example_gue))) = 1 \<and>
   exitCode (apply_ops example_lib example_ops (snd (shell example_lib ''typo'' Undefined example_gue))) = 1"
  using exitCode_starts_zero_and_is_only_raised
    [of "\<lparr>exitCode = 7, options = [(''stale'', Null)], options_proto = None, tasks = [],
          watchers = [], runs = [], listeners = [], trace = [], env_PATH = ''/usr/bin'',
          exited = None\<rparr>"
        example_lib "''typo''" Undefined example_gue
        "\<lparr>stdout = [], stderr = ''typo: not found'' @ [CHR 0x0A], code = 127\<rparr>"
        "''print''" "''not an object''" None
        "Call_shell ''echo '' Undefined" "snd (shell example_lib ''typo'' Undefined example_gue)"
        example_ops]
    exitCode_starts_zero_and_is_only_raised
    [of "\<lparr>exitCode = 7, options = [(''stale'', Null)], options_proto = None, tasks = [],
          watchers = [], runs = [], listeners = [], trace = [], env_PATH = ''/usr/bin'',
          exited = None\<rparr>"
        example_lib "''typo''" "Num 3" example_gue
        "\<lparr>stdout = [], stderr = ''typo: not found'' @ [CHR 0x0A], code = 127\<rparr>"
        "''print''" "''not an object''" None
        "Call_shell ''echo '' Undefined" "snd (shell example_lib ''typo'' Undefined example_gue)"
        example_ops]
  by (simp add: example_ops_def silentShell_def shell_def u_shell_def lodashVars_def this_options_def example_lib_def
      example_gue_def constructor_def shellOpts_def log_def errLog_def u_log_def console_log_def
      not_taskname_def not_duration_def setOption_def task_def add_def watch_def u_watch_def
      on_all_def start_def watcher_close_def Let_def)

text \<open>
  Claim C2 as it is stated fails: a task whose action fails without a rejected
  shell command leaves the flag at 0:
  the action \<^verbatim>\<open>() => Promise.reject(err)\<close> and the action
  \<^verbatim>\<open>(done) => { done(err); }\<close> both fail on the fresh runner, and the flag is 0
  afterwards. The flag is written in the \<^verbatim>\<open>.catch\<close> handler of \<^verbatim>\<open>_shell\<close> and
  nowhere else, so "set the first time any task's action fails" does not hold.
\<close>

theorem failed_action_without_flag_counterexample:
  "fst (run_action example_lib (PromiseAction (Some ''failed'')) example_gue) = Failed \<and>
   exitCode (snd (run_action example_lib (PromiseAction (Some ''failed'')) example_gue)) = 0 \<and>
   fst (run_action example_lib (CallbackAction (Some ''failed'')) example_gue) = Failed \<and>
   exitCode (snd (run_action example_lib (CallbackAction (Some ''failed'')) example_gue)) = 0"
  by (simp add: example_gue_def constructor_def)

subsection \<open>The outcome of a shell command\<close>

text \<open>
  Claim C3. With the process executor of the spec behind \<^verbatim>\<open>execa.shell\<close>, and for
  every command that was rendered: the promise of \<^verbatim>\<open>_shell\<close> settles as the promise
  of \<^verbatim>\<open>execa.shell\<close> does, so \<^verbatim>\<open>_shell\<close> gives a resolved promise exactly when
  the subprocess exits with code 0, and then with the result of the subprocess; a
  non-zero exit gives a rejected promise that carries the result of the subprocess, its
  captured stdout and stderr included; no exception is thrown, and the process has
  not exited.
\<close>

theorem shell_success_iff_exit_zero:
  assumes "execa_shell L = execa_shell_spec subprocess"
    and "template L interpolate command (lodashVars values this) = Inr cmd"
  shows "fst (u_shell L mode command values this) = Promise (execa_shell L cmd (shellOpts this)) \<and>
         ((\<exists>r. fst (u_shell L mode command values this) = Promise (Resolved r)) \<longleftrightarrow>
            code (subprocess cmd (shellOpts this)) = 0) \<and>
         (code (subprocess cmd (shellOpts this)) = 0 \<longrightarrow>
            fst (u_shell L mode command values this) = Promise (Resolved (subprocess cmd (shellOpts this)))) \<and>
         (code (subprocess cmd (shellOpts this)) \<noteq> 0 \<longrightarrow>
            fst (u_shell L mode command values this) = Promise (Rejected (subprocess cmd (shellOpts this)))) \<and>
         (\<forall>e. fst (u_shell L mode command values this) \<noteq> Threw e) \<and>
         exited (snd (u_shell L mode command values this)) = exited this"
proof -
  obtain es c where "snd (u_shell L mode command values this) = this\<lparr>exitCode := c, trace := trace this @ es\<rparr>"
    using u_shell_changes by blast
  then have x: "exited (snd (u_shell L mode command values this)) = exited this"
    by simp
  show ?thesis
  proof (cases "code (subprocess cmd (shellOpts this)) = 0")
    case True
    then have "fst (u_shell L mode command values this) = Promise (Resolved (subprocess cmd (shellOpts this)))"
      using assms by (simp add: u_shell_def execa_shell_spec_def Let_def)
    with True x assms(1) show ?thesis by (simp add: execa_shell_spec_def)
  next
    case False
    then have "fst (u_shell L mode command values this) = Promise (Rejected (subprocess cmd (shellOpts this)))"
      using assms by (simp add: u_shell_def execa_shell_spec_def Let_def)
    with False x assms(1) show ?thesis by (simp add: execa_shell_spec_def)
  qed
qed

theorem shell_success_iff_exit_zero_witness:
  "execa_shell (example_lib\<lparr>execa_shell := execa_shell_spec example_subprocess\<rparr>) =
     execa_shell_spec example_subprocess \<and>
   template (example_lib\<lparr>execa_shell := execa_shell_spec example_subprocess\<rparr>) interpolate ''typo''
     (lodashVars Undefined example_gue) = Inr ''typo'' \<and>
   code (example_subprocess ''typo'' (shellOpts example_gue)) = 127 \<and>
   fst (u_shell (example_lib\<lparr>execa_shell := execa_shell_spec example_subprocess\<rparr>) ''print'' ''typo''
     Undefined example_gue) =
     Promise (Rejected \<lparr>stdout = [], stderr = ''typo: not found'' @ [CHR 0x0A], code = 127\<rparr>) \<and>
   template (example_lib\<lparr>execa_shell := execa_shell_spec example_subprocess\<rparr>) interpolate ''ls''
     (lodashVars Undefined example_gue) = Inr ''ls'' \<and>
   code (example_subprocess ''ls'' (shellOpts example_gue)) = 0 \<and>
   fst (u_shell (example_lib\<lparr>execa_shell := execa_shell_spec example_subprocess\<rparr>) ''print'' ''ls''
     Undefined example_gue) =
     Promise (Resolved \<lparr>stdout = ''ls'' @ [CHR 0x0A], stderr = [], code = 0\<rparr>)"
proof -
  let ?L = "example_lib\<lparr>execa_shell := execa_shell_spec example_subprocess\<rparr>"
  have x: "execa_shell ?L = execa_shell_spec example_subprocess"
    by simp
  have r1: "template ?L interpolate ''typo'' (lodashVars Undefined example_gue) = Inr ''typo''"
    by (simp add: example_lib_def lodashVars_def this_options_def example_gue_def constructor_def)
  have r2: "template ?L interpolate ''ls'' (lodashVars Undefined example_gue) = Inr ''ls''"
    by (simp add: example_lib_def lodashVars_def this_options_def example_gue_def constructor_def)
  have c1: "code (example_subprocess ''typo'' (shellOpts example_gue)) = 127"
    by (simp add: example_subprocess_def)
  have c2: "code (example_subprocess ''ls'' (shellOpts example_gue)) = 0"
    by (simp add: example_subprocess_def)
  have "fst (u_shell ?L ''print'' ''typo'' Undefined example_gue) =
     Promise (Rejected \<lparr>stdout = [], stderr = ''typo: not found'' @ [CHR 0x0A], code = 127\<rparr>)"
    using shell_success_iff_exit_zero [OF x r1, of "''print''"] c1
    by (simp add: example_subprocess_def execa_shell_spec_def)
  moreover have "fst (u_shell ?L ''print'' ''ls'' Undefined example_gue) =
     Promise (Resolved \<lparr>stdout = ''ls'' @ [CHR 0x0A], stderr = [], code = 0\<rparr>)"
    using shell_success_iff_exit_zero [OF x r2, of "''print''"] c2
    by (simp add: example_subprocess_def execa_shell_spec_def)
  ultimately show ?thesis using x r1 r2 c1 c2 by blast
qed

subsection \<open>The binding table of a shell command\<close>

text \<open>
  Claim C5. A binding table given with the call is the table the template is rendered
  with, as it is (so is every value that JavaScript takes as true); without one, and
  for every value JavaScript takes as false, the object \<^verbatim>\<open>this.options\<close> of the
  runner is. The command handed to \<^verbatim>\<open>execa.shell\<close> is the template rendered with
  that table; a renderer that throws makes \<^verbatim>\<open>_shell\<close> throw. A call without a
  table behaves as the call with \<^verbatim>\<open>this.options\<close> as table, and the outcome of a
  call with a table does not depend on \<^verbatim>\<open>this.options\<close>. That object holds what
  \<^verbatim>\<open>setOption\<close> has put there: for every name but \<^verbatim>\<open>__proto__\<close>,
  \<^verbatim>\<open>setOption\<close> binds the name to the value among the object's own properties
  and leaves the other names and the prototype as they were; for the name
  \<^verbatim>\<open>__proto__\<close> on an object with the prototype of an object literal and no such
  property of its own, the own properties stay as they were.
\<close>

theorem shell_binding_table_precedence:
  "lodashVars (Obj table) this = Obj table \<and>
   (truthy values \<longrightarrow> lodashVars values this = values) \<and>
   lodashVars Undefined this = this_options this \<and>
   (\<not> truthy values \<longrightarrow> lodashVars values this = this_options this) \<and>
   (template L interpolate command (lodashVars values this) = Inl e \<longrightarrow>
      u_shell L mode command values this = (Threw e, this)) \<and>
   (template L interpolate command (lodashVars values this) = Inr cmd \<longrightarrow>
      (\<exists>rest. trace (snd (u_shell L mode command values this)) =
         trace this @ ExecaShell cmd (shellOpts this) # rest)) \<and>
   u_shell L mode command Undefined this = u_shell L mode command (this_options this) this \<and>
   fst (u_shell L mode command (Obj table) (this\<lparr>options := other, options_proto := proto\<rparr>)) =
     fst (u_shell L mode command (Obj table) this) \<and>
   (options_proto this = None \<longrightarrow> this_options this = Obj (options this)) \<and>
   (name \<noteq> ''__proto__'' \<longrightarrow>
      options (setOption name value this) = obj_set name value (options this) \<and>
      options_proto (setOption name value this) = options_proto this \<and>
      map_of (options (setOption name value this)) = (map_of (options this))(name \<mapsto> value)) \<and>
   (options_proto this = None \<and> map_of (options this) ''__proto__'' = None \<longrightarrow>
      options (setOption ''__proto__'' value this) = options this)"
proof -
  have 1: "lodashVars (Obj table) this = Obj table"
    by (simp add: lodashVars_def this_options_def)
  have 2: "truthy values \<longrightarrow> lodashVars values this = values"
    by (simp add: lodashVars_def this_options_def)
  have 3: "lodashVars Undefined this = this_options this"
    by (simp add: lodashVars_def this_options_def)
  have 4: "\<not> truthy values \<longrightarrow> lodashVars values this = this_options this"
    by (simp add: lodashVars_def this_options_def)
  have 5: "template L interpolate command (lodashVars values this) = Inl e \<longrightarrow>
      u_shell L mode command values this = (Threw e, this)"
    by (simp add: u_shell_def)
  have 6: "template L interpolate command (lodashVars values this) = Inr cmd \<longrightarrow>
      (\<exists>rest. trace (snd (u_shell L mode command values this)) =
         trace this @ ExecaShell cmd (shellOpts this) # rest)"
    using u_shell_started by blast
  have "truthy (this_options this)"
    by (simp add: this_options_def split: option.splits)
  then have "lodashVars (this_options this) this = lodashVars Undefined this"
    by (simp add: lodashVars_def this_options_def)
  then have 7: "u_shell L mode command Undefined this = u_shell L mode command (this_options this) this"
    by (simp add: u_shell_def)
  have 8: "fst (u_shell L mode command (Obj table) (this\<lparr>options := other, options_proto := proto\<rparr>)) =
     fst (u_shell L mode command (Obj table) this)"
    by (simp add: u_shell_def lodashVars_def this_options_def shellOpts_def Let_def split: sum.splits settled.splits)
  have 9: "options_proto this = None \<longrightarrow> this_options this = Obj (options this)"
    by (simp add: this_options_def)
  have 10: "name \<noteq> ''__proto__'' \<longrightarrow>
      options (setOption name value this) = obj_set name value (options this) \<and>
      options_proto (setOption name value this) = options_proto this \<and>
      map_of (options (setOption name value this)) = (map_of (options this))(name \<mapsto> value)"
    by (simp add: setOption_def map_of_obj_set)
  have 11: "options_proto this = None \<and> map_of (options this) ''__proto__'' = None \<longrightarrow>
      options (setOption ''__proto__'' value this) = options this"
    by (simp add: setOption_def)
  from 1 2 3 4 5 6 7 8 9 10 11 show ?thesis by blast
qed

theorem shell_binding_table_precedence_witness:
  "truthy (Obj [(''v'', Str ''woot'')]) \<and>
   template example_lib interpolate ''echo ''
     (lodashVars (Obj [(''v'', Str ''woot'')]) (setOption ''v'' (Str ''foobar'') example_gue)) =
     Inr ''echo woot'' \<and>
   trace (snd (u_shell example_lib ''print'' ''echo '' (Obj [(''v'', Str ''woot'')])
            (setOption ''v'' (Str ''foobar'') example_gue))) =
     [ExecaShell ''echo woot'' (shellOpts example_gue), ConsoleLog ''echo woot''] \<and>
   \<not> truthy Undefined \<and>
   trace (snd (u_shell example_lib ''print'' ''echo '' Undefined
            (setOption ''v'' (Str ''foobar'') example_gue))) =
     [ExecaShell ''echo foobar'' (shellOpts example_gue), ConsoleLog ''echo foobar''] \<and>
   template example_lib interpolate ''echo '' (lodashVars (Num 3) example_gue) = Inl ''not an object'' \<and>
   u_shell example_lib ''print'' ''echo '' (Num 3) example_gue = (Threw ''not an object'', example_gue) \<and>
   options_proto example_gue = None \<and>
   this_options example_gue = Obj [] \<and>
   ''v'' \<noteq> ''__proto__'' \<and>
   options (setOption ''v'' (Str ''foobar'') example_gue) = [(''v'', Str ''foobar'')] \<and>
   options_proto (setOption ''v'' (Str ''foobar'') example_gue) = None \<and>
   this_options (setOption ''v'' (Str ''foobar'') example_gue) = Obj [(''v'', Str ''foobar'')] \<and>
   map_of (options example_gue) ''__proto__'' = None \<and>
   options (setOption ''__proto__'' (Obj [(''v'', Str ''foobar'')]) example_gue) = [] \<and>
   lodashVars Undefined (setOption ''__proto__'' (Obj [(''v'', Str ''foobar'')]) example_gue) =
     ObjProto [] (Obj [(''v'', Str ''foobar'')]) \<and>
   trace (snd (u_shell example_lib ''print'' ''echo '' Undefined
            (setOption ''__proto__'' (Obj [(''v'', Str ''foobar'')]) example_gue))) =
     [ExecaShell ''echo foobar'' (shellOpts example_gue), ConsoleLog ''echo foobar'']"
  using shell_binding_table_precedence
    [of "[(''v'', Str ''woot'')]" "setOption ''v'' (Str ''foobar'') example_gue" "Obj [(''v'', Str ''woot'')]"
        example_lib "''echo ''" "''none''" "''print''" "''echo woot''" None "[]" "''v''" "Str ''foobar''"]
    shell_binding_table_precedence
    [of "[]" "setOption ''v'' (Str ''foobar'') example_gue" Undefined
        example_lib "''echo ''" "''none''" "''print''" "''echo foobar''" None "[]" "''v''" "Str ''foobar''"]
    shell_binding_table_precedence
    [of "[]" example_gue "Num 3" example_lib "''echo ''" "''not an object''" "''print''" "''echo''" None
        "[]" "''v''" "Str ''foobar''"]
    shell_binding_table_precedence
    [of "[]" example_gue Undefined example_lib "''echo ''" "''none''" "''print''" "''echo ''" None
        "[]" "''v''" "Obj [(''v'', Str ''foobar'')]"]
    shell_binding_table_precedence
    [of "[]" "setOption ''__proto__'' (Obj [(''v'', Str ''foobar'')]) example_gue" Undefined
        example_lib "''echo ''" "''none''" "''print''" "''echo foobar''" None "[]" "''v''" Null]
  by (simp add: u_shell_def lodashVars_def this_options_def example_lib_def example_gue_def
      constructor_def shellOpts_def log_def errLog_def u_log_def console_log_def not_taskname_def
      not_duration_def setOption_def Let_def)

subsection \<open>The watch loop\<close>

text \<open>
  Claim C6. Let \<open>w\<close> be a live watcher. On a file event its handler prints, then
  tears the watcher down, and only then starts the run of the task list; a further
  file event on \<open>w\<close> while the run goes on does nothing. After the run has settled,
  whether it failed or not and whatever happened during the run, there is exactly
  one more watcher, live and over the same glob and task list: the trace has gained
  one subscription, after the teardown and the start of the run, and the process
  has not exited.
\<close>

theorem watch_cycle_resubscribes_once:
  assumes "w < length (watchers this)" and "\<not> w_closed (watchers this ! w)"
    and "list_all during_run ops"
  shows "(\<exists>lines. trace (deliver L (FsEvent w event path) this) =
            trace this @ map ConsoleLog lines @
              [WatcherClose w, OrchestratorStart (w_taskList (watchers this ! w))]) \<and>
         watchers (deliver L (FsEvent w event path) this) =
           (watchers this)[w := (watchers this ! w)\<lparr>w_closed := True\<rparr>] \<and>
         deliver L (FsEvent w event' path') (deliver L (FsEvent w event path) this) =
           deliver L (FsEvent w event path) this \<and>
         watchers (watch_cycle L w event path ops failed this) =
           (watchers this)[w := (watchers this ! w)\<lparr>w_closed := True\<rparr>] @
             [\<lparr>w_glob = w_glob (watchers this ! w), w_taskList = w_taskList (watchers this ! w),
               w_closed = False\<rparr>] \<and>
         (\<exists>lines es. trace (watch_cycle L w event path ops failed this) =
            trace this @ map ConsoleLog lines @
              [WatcherClose w, OrchestratorStart (w_taskList (watchers this ! w))] @ es @
              [ChokidarWatch (w_glob (watchers this ! w)) True] \<and>
            filter is_subscription es = []) \<and>
         exited (watch_cycle L w event path ops failed this) = exited this"
proof -
  let ?glob = "w_glob (watchers this ! w)"
  let ?tl = "w_taskList (watchers this ! w)"
  let ?ws = "(watchers this)[w := (watchers this ! w)\<lparr>w_closed := True\<rparr>]"
  let ?run = "\<lparr>r_tasks = ?tl, r_callback = Some (Rewatch ?glob ?tl), r_settled = False,
      r_fault = start_fault (tasks this) ?tl\<rparr>"
  define triggered where "triggered = deliver L (FsEvent w event path) this"
  obtain lines where t: "triggered =
      this\<lparr>trace := trace this @ map ConsoleLog lines @ [WatcherClose w, OrchestratorStart ?tl],
           watchers := ?ws, runs := runs this @ [?run]\<rparr>"
    unfolding triggered_def using fs_event_live [OF assms(1) assms(2)] by blast
  have a: "trace triggered = trace this @ map ConsoleLog lines @ [WatcherClose w, OrchestratorStart ?tl]"
    by (simp add: t)
  have b: "watchers triggered = ?ws"
    by (simp add: t)
  have "w < length (watchers triggered)" "w_closed (watchers triggered ! w)"
    using assms(1) by (simp_all add: b)
  then have c: "deliver L (FsEvent w event' path') triggered = triggered"
    by (rule fs_event_closed)
  define ran where "ran = apply_ops L ops triggered"
  obtain es where r: "watchers ran = watchers triggered" "runs ran = runs triggered"
      "exited ran = exited triggered" "trace ran = trace triggered @ es"
      and f: "filter is_subscription es = []"
    unfolding ran_def using during_run_ops_frame [OF assms(3)] by blast
  define final where "final = deliver L (RunSettled (length (runs this)) failed) ran"
  have rr: "runs ran = runs this @ [?run]"
    by (simp add: r t)
  have fin: "final = (ran\<lparr>runs := runs this @ [?run\<lparr>r_settled := True\<rparr>]\<rparr>)
      \<lparr>watchers := watchers ran @ [\<lparr>w_glob = ?glob, w_taskList = ?tl, w_closed = False\<rparr>],
       trace := trace ran @ [ChokidarWatch ?glob True]\<rparr>"
    unfolding final_def by (simp add: rr u_watch_def)
  have wc: "watch_cycle L w event path ops failed this = final"
    by (simp add: watch_cycle_def final_def ran_def triggered_def)
  have d: "watchers final = ?ws @ [\<lparr>w_glob = ?glob, w_taskList = ?tl, w_closed = False\<rparr>]"
    by (simp add: fin r t)
  have e: "trace final = trace this @ map ConsoleLog lines @ [WatcherClose w, OrchestratorStart ?tl] @ es @
      [ChokidarWatch ?glob True]"
    by (simp add: fin r t)
  have g: "exited final = exited this"
    by (simp add: fin r t)
  show ?thesis
    unfolding wc using a b c d e f g unfolding triggered_def by blast
qed

theorem watch_cycle_resubscribes_once_witness:
  "0 < length (watchers example_watching) \<and> \<not> w_closed (watchers example_watching ! 0) \<and>
   list_all during_run example_run \<and>
   watchers (deliver example_lib (FsEvent 0 ''change'' ''src/a.js'') example_watching) =
     [\<lparr>w_glob = [''src/*.js''], w_taskList = [''lint''], w_closed = True\<rparr>] \<and>
   deliver example_lib (FsEvent 0 ''add'' ''src/b.js'')
       (deliver example_lib (FsEvent 0 ''change'' ''src/a.js'') example_watching) =
     deliver example_lib (FsEvent 0 ''change'' ''src/a.js'') example_watching \<and>
   watchers (watch_cycle example_lib 0 ''change'' ''src/a.js'' example_run True example_watching) =
     [\<lparr>w_glob = [''src/*.js''], w_taskList = [''lint''], w_closed = True\<rparr>,
      \<lparr>w_glob = [''src/*.js''], w_taskList = [''lint''], w_closed = False\<rparr>] \<and>
   trace (watch_cycle example_lib 0 ''change'' ''src/a.js'' example_run True example_watching) =
     [ConsoleLog ''<green>[watch] <cyan>Started. ^c to stop'',
      ChokidarWatch [''src/*.js''] True,
      ConsoleLog [CHR 0x0A],
      ConsoleLog ''<green>[watch] <cyan>src/a.js change'',
      WatcherClose 0,
      OrchestratorStart [''lint''],
      ConsoleLog ''<green>[lint]<blue>started'',
      ExecaShell ''typo'' (shellOpts example_gue),
      ConsoleLog ''<red>typo: not found'',
      ChokidarWatch [''src/*.js''] True] \<and>
   exitCode (watch_cycle example_lib 0 ''change'' ''src/a.js'' example_run True example_watching) = 1 \<and>
   exited (watch_cycle example_lib 0 ''change'' ''src/a.js'' example_run True example_watching) = None"
proof -
  have l: "0 < length (watchers example_watching)" and o: "\<not> w_closed (watchers example_watching ! 0)"
    by (simp_all add: example_watching_def watch_def u_watch_def log_def u_log_def console_log_def
        not_taskname_def not_duration_def example_gue_def constructor_def emitter_on_def)
  have d: "list_all during_run example_run"
    by (simp add: example_run_def)
  note w = watch_cycle_resubscribes_once [OF l o d, of example_lib "''change''" "''src/a.js''"
      "''add''" "''src/b.js''" True]
  show ?thesis
    using l o d w
    by (simp add: watch_cycle_def example_run_def example_watching_def watch_def u_watch_def on_all_def
        start_def watcher_close_def shell_def u_shell_def lodashVars_def this_options_def example_lib_def
        example_gue_def constructor_def shellOpts_def log_def errLog_def u_log_def console_log_def
        not_taskname_def not_duration_def emitter_on_def Let_def)
qed

subsection \<open>The registry of tasks\<close>

text \<open>
  Claim C7. With \<^verbatim>\<open>add\<close> as the spec gives it: when a name is registered twice, the
  registry holds exactly one entry under that name, with the dependencies and the
  action of the second registration, and the entries under other names are as they
  were. No two entries of the registry share a name, and no later operation on the
  runner changes that.
\<close>

theorem task_last_registration_wins:
  assumes "distinct (taskList this)"
    and "task n deps1 func1 this = Inr this1"
    and "task n deps2 func2 this1 = Inr this2"
  shows "filter (\<lambda>e. fst e = n) (tasks this2) = [(n, \<lparr>t_name = n, t_dep = deps2, t_fn = func2\<rparr>)] \<and>
         map_of (tasks this2) n = Some \<lparr>t_name = n, t_dep = deps2, t_fn = func2\<rparr> \<and>
         (\<forall>m. m \<noteq> n \<longrightarrow> map_of (tasks this2) m = map_of (tasks this) m) \<and>
         distinct (taskList this2) \<and>
         distinct (taskList (apply_ops L xs this2))"
proof -
  have n: "n \<noteq> []"
    using assms(2) by (auto simp: task_def add_def split: if_splits)
  have 1: "tasks this1 = obj_set n \<lparr>t_name = n, t_dep = deps1, t_fn = func1\<rparr> (tasks this)"
    using assms(2) n by (auto simp: task_def add_def)
  have 2: "tasks this2 = obj_set n \<lparr>t_name = n, t_dep = deps2, t_fn = func2\<rparr> (tasks this1)"
    using assms(3) n by (auto simp: task_def add_def)
  have d1: "distinct (map fst (tasks this1))"
    using assms(1) by (simp add: 1 taskList_def obj_set_distinct)
  have d2: "distinct (taskList this2)"
    using d1 by (simp add: 2 taskList_def obj_set_distinct)
  have a: "filter (\<lambda>e. fst e = n) (tasks this2) = [(n, \<lparr>t_name = n, t_dep = deps2, t_fn = func2\<rparr>)]"
    unfolding 2 using d1 by (rule obj_set_entry)
  have b: "map_of (tasks this2) n = Some \<lparr>t_name = n, t_dep = deps2, t_fn = func2\<rparr>"
    by (simp add: 2 map_of_obj_set)
  have c: "\<forall>m. m \<noteq> n \<longrightarrow> map_of (tasks this2) m = map_of (tasks this) m"
    by (simp add: 2 1 map_of_obj_set)
  from a b c d2 apply_ops_distinct [OF d2] show ?thesis by blast
qed

theorem task_last_registration_wins_witness:
  "distinct (taskList (example_guefile example_gue)) \<and>
   taskList (example_guefile example_gue) = [''default'', ''coverage'', ''fail''] \<and>
   (\<exists>this1 this2.
      task ''coverage'' (Some [''lint'']) (Some (ShellAction ''nyc mocha'' Undefined))
        (example_guefile example_gue) = Inr this1 \<and>
      task ''coverage'' None (Some (SilentShellAction ''istanbul'' Undefined)) this1 = Inr this2 \<and>
      filter (\<lambda>e. fst e = ''coverage'') (tasks this2) =
        [(''coverage'', \<lparr>t_name = ''coverage'', t_dep = None,
            t_fn = Some (SilentShellAction ''istanbul'' Undefined)\<rparr>)] \<and>
      taskList this2 = [''default'', ''coverage'', ''fail''])"
proof -
  define g where "g = example_guefile example_gue"
  define this1 where "this1 = g\<lparr>tasks := obj_set ''coverage''
      \<lparr>t_name = ''coverage'', t_dep = Some [''lint''], t_fn = Some (ShellAction ''nyc mocha'' Undefined)\<rparr> (tasks g)\<rparr>"
  define this2 where "this2 = this1\<lparr>tasks := obj_set ''coverage''
      \<lparr>t_name = ''coverage'', t_dep = None, t_fn = Some (SilentShellAction ''istanbul'' Undefined)\<rparr> (tasks this1)\<rparr>"
  have tl: "taskList g = [''default'', ''coverage'', ''fail'']"
    by (simp add: g_def example_guefile_def example_gue_def constructor_def taskList_def task_def
        add_def setOption_def)
  then have d: "distinct (taskList g)"
    by simp
  have r1: "task ''coverage'' (Some [''lint'']) (Some (ShellAction ''nyc mocha'' Undefined)) g = Inr this1"
    by (simp add: task_def add_def this1_def)
  have r2: "task ''coverage'' None (Some (SilentShellAction ''istanbul'' Undefined)) this1 = Inr this2"
    by (simp add: task_def add_def this2_def)
  note w = task_last_registration_wins [OF d r1 r2, of example_lib "[]"]
  have "taskList this2 = [''default'', ''coverage'', ''fail'']"
    using tl by (simp add: this2_def this1_def taskList_def obj_set_keys)
  with w d tl r1 r2 show ?thesis unfolding g_def by blast
qed

subsection \<open>What shell reports\<close>

text \<open>
  Claim C8. Let \<^verbatim>\<open>trim-newlines\<close> return no string that ends with a newline. When a
  command of \<^verbatim>\<open>shell\<close> has finished, resolved or rejected, the logging methods are
  called with the trimmed stderr and the trimmed stdout of the result, in this order,
  on the state in which the subprocess has run (and the flag is set, when rejected);
  what is printed is the trimmed stderr in red and the trimmed stdout, each unless it
  is empty; and neither string handed to the logging methods ends with a newline.
\<close>

theorem shell_reports_trimmed_output:
  assumes "\<forall>s. \<not> ends_with_newline (trimNewlines L s)"
    and "template L interpolate command (lodashVars value this) = Inr cmd"
    and "execa_shell L cmd (shellOpts this) = Resolved r \<or> execa_shell L cmd (shellOpts this) = Rejected r"
  shows "snd (shell L command value this) =
           log L (trimNewlines L (stdout r)) None None
             (errLog L (trimNewlines L (stderr r)) None None
                (this\<lparr>trace := trace this @ [ExecaShell cmd (shellOpts this)],
                      exitCode := (if execa_shell L cmd (shellOpts this) = Resolved r
                                   then exitCode this else 1)\<rparr>)) \<and>
         trace (snd (shell L command value this)) =
           trace this @ [ExecaShell cmd (shellOpts this)]
             @ (if trimNewlines L (stderr r) = [] then []
                else [ConsoleLog (chalk_red L (trimNewlines L (stderr r)))])
             @ (if trimNewlines L (stdout r) = [] then []
                else [ConsoleLog (trimNewlines L (stdout r))]) \<and>
         \<not> ends_with_newline (trimNewlines L (stderr r)) \<and>
         \<not> ends_with_newline (trimNewlines L (stdout r))"
proof -
  note s = shell_settled [OF assms(2) assms(3)]
  have "trace (snd (shell L command value this)) =
           trace this @ [ExecaShell cmd (shellOpts this)]
             @ (if trimNewlines L (stderr r) = [] then []
                else [ConsoleLog (chalk_red L (trimNewlines L (stderr r)))])
             @ (if trimNewlines L (stdout r) = [] then []
                else [ConsoleLog (trimNewlines L (stdout r))])"
    unfolding s by (simp add: log_line errLog_line)
  with s assms(1) show ?thesis by blast
qed

theorem shell_reports_trimmed_output_witness:
  "(\<forall>s. \<not> ends_with_newline (trimNewlines example_lib s)) \<and>
   template example_lib interpolate ''typo'' (lodashVars Undefined example_gue) = Inr ''typo'' \<and>
   execa_shell example_lib ''typo'' (shellOpts example_gue) =
     Rejected \<lparr>stdout = [], stderr = ''typo: not found'' @ [CHR 0x0A], code = 127\<rparr> \<and>
   trace (snd (shell example_lib ''typo'' Undefined example_gue)) =
     [ExecaShell ''typo'' (shellOpts example_gue), ConsoleLog (chalk_red example_lib ''typo: not found'')] \<and>
   template example_lib interpolate ''ls'' (lodashVars Undefined example_gue) = Inr ''ls'' \<and>
   execa_shell example_lib ''ls'' (shellOpts example_gue) =
     Resolved \<lparr>stdout = ''ls'' @ [CHR 0x0A], stderr = [], code = 0\<rparr> \<and>
   trace (snd (shell example_lib ''ls'' Undefined example_gue)) =
     [ExecaShell ''ls'' (shellOpts example_gue), ConsoleLog ''ls'']"
proof -
  have t: "\<forall>s. \<not> ends_with_newline (trimNewlines example_lib s)"
    using example_trim by blast
  have r1: "template example_lib interpolate ''typo'' (lodashVars Undefined example_gue) = Inr ''typo''"
    by (simp add: example_lib_def lodashVars_def this_options_def example_gue_def constructor_def)
  have e1: "execa_shell example_lib ''typo'' (shellOpts example_gue) =
     Rejected \<lparr>stdout = [], stderr = ''typo: not found'' @ [CHR 0x0A], code = 127\<rparr>"
    by (simp add: example_lib_def)
  have r2: "template example_lib interpolate ''ls'' (lodashVars Undefined example_gue) = Inr ''ls''"
    by (simp add: example_lib_def lodashVars_def this_options_def example_gue_def constructor_def)
  have e2: "execa_shell example_lib ''ls'' (shellOpts example_gue) =
     Resolved \<lparr>stdout = ''ls'' @ [CHR 0x0A], stderr = [], code = 0\<rparr>"
    by (simp add: example_lib_def)
  have "trace (snd (shell example_lib ''typo'' Undefined example_gue)) =
     [ExecaShell ''typo'' (shellOpts example_gue), ConsoleLog (chalk_red example_lib ''typo: not found'')]"
    using shell_reports_trimmed_output [OF t r1 disjI2 [OF e1]]
    by (simp add: example_lib_def example_gue_def constructor_def shell_def u_shell_def
        lodashVars_def this_options_def shellOpts_def log_def errLog_def u_log_def console_log_def
        not_taskname_def not_duration_def)
  moreover have "trace (snd (shell example_lib ''ls'' Undefined example_gue)) =
     [ExecaShell ''ls'' (shellOpts example_gue), ConsoleLog ''ls'']"
    using shell_reports_trimmed_output [OF t r2 disjI1 [OF e2]]
    by (simp add: example_lib_def example_gue_def constructor_def shell_def u_shell_def
        lodashVars_def this_options_def shellOpts_def log_def errLog_def u_log_def console_log_def
        not_taskname_def not_duration_def)
  ultimately show ?thesis using t r1 e1 r2 e2 by blast
qed

subsection \<open>The command line\<close>

text \<open>
  Claim C9, as amended. When no configuration file was found, the command line
  prints \<^verbatim>\<open>No gulpfile found\<close> and exits with status 1: nothing else is printed
  and no run is started. When a configuration file and the local module were found:
  with the flag \<^verbatim>\<open>-l\<close> it prints the names of all registered tasks, one per line,
  and exits with status 0, and no run is started; without the flag it attaches its
  two listeners and asks the scheduler for one run, of the task \<open>default\<close> when there
  is no positional argument and of exactly the positional arguments otherwise, and
  the process does not exit. The scheduler accepts a run exactly when every requested
  task, and every task that can be reached from one along the dependencies, is
  registered and none of them is on a cycle of dependencies; a requested name that
  is not registered makes it refuse the run with the error for an unknown task.
\<close>

theorem invoke_runs_named_tasks:
  "(configPath cli = None \<or> configPath cli = Some [] \<longrightarrow>
      invoke L cli args guefile this =
        Inr (this\<lparr>trace := trace this @ [ConsoleLog (chalk_red L ''No gulpfile found''), ProcessExit 1],
                  exited := Some 1\<rparr>)) \<and>
   (configPath cli = Some path \<and> path \<noteq> [] \<and> modulePath cli = Some modpath \<and> modpath \<noteq> [] \<and>
    truthy (flag_l args) \<longrightarrow>
      invoke L cli args guefile this =
        Inr ((loaded cli path modpath guefile this)
               \<lparr>trace := trace (loaded cli path modpath guefile this) @
                  [ConsoleLog (join [CHR 0x0A] (taskList (loaded cli path modpath guefile this))),
                   ProcessExit 0],
                exited := Some 0\<rparr>)) \<and>
   (configPath cli = Some path \<and> path \<noteq> [] \<and> modulePath cli = Some modpath \<and> modpath \<noteq> [] \<and>
    \<not> truthy (flag_l args) \<longrightarrow>
      invoke L cli args guefile this =
        Inr ((loaded cli path modpath guefile this)
               \<lparr>listeners := listeners (loaded cli path modpath guefile this) @
                  [(''task_start'', PrintStarted), (''task_stop'', PrintFinished)],
                runs := runs (loaded cli path modpath guefile this) @
                  [\<lparr>r_tasks = actionList args, r_callback = None, r_settled = False,
                    r_fault = start_fault (tasks (loaded cli path modpath guefile this))
                                (actionList args)\<rparr>],
                trace := trace (loaded cli path modpath guefile this) @
                  [OrchestratorStart (actionList args)]\<rparr>)) \<and>
   (positional args = [] \<longrightarrow> actionList args = [''default'']) \<and>
   (positional args \<noteq> [] \<longrightarrow> actionList args = positional args) \<and>
   (start_fault reg names = None) =
     (\<forall>n\<in>set names. \<forall>d. (n, d) \<in> (depends reg)\<^sup>* \<longrightarrow>
        map_of reg d \<noteq> None \<and> (d, d) \<notin> (depends reg)\<^sup>+) \<and>
   (n \<in> set names \<and> map_of reg n = None \<longrightarrow>
      (\<exists>u. start_fault reg names = Some (UnknownTask u)))"
proof -
  have 1: "configPath cli = None \<or> configPath cli = Some [] \<longrightarrow>
      invoke L cli args guefile this =
        Inr (this\<lparr>trace := trace this @ [ConsoleLog (chalk_red L ''No gulpfile found''), ProcessExit 1],
                  exited := Some 1\<rparr>)"
    by (auto simp: invoke_def process_exit_def console_log_def)
  have 2: "configPath cli = Some path \<and> path \<noteq> [] \<and> modulePath cli = Some modpath \<and> modpath \<noteq> [] \<and>
    truthy (flag_l args) \<longrightarrow>
      invoke L cli args guefile this =
        Inr ((loaded cli path modpath guefile this)
               \<lparr>trace := trace (loaded cli path modpath guefile this) @
                  [ConsoleLog (join [CHR 0x0A] (taskList (loaded cli path modpath guefile this))),
                   ProcessExit 0],
                exited := Some 0\<rparr>)"
    by (simp add: invoke_def loaded_def configured_def require_module_def process_exit_def
        console_log_def taskList_def Let_def)
  have 3: "configPath cli = Some path \<and> path \<noteq> [] \<and> modulePath cli = Some modpath \<and> modpath \<noteq> [] \<and>
    \<not> truthy (flag_l args) \<longrightarrow>
      invoke L cli args guefile this =
        Inr ((loaded cli path modpath guefile this)
               \<lparr>listeners := listeners (loaded cli path modpath guefile this) @
                  [(''task_start'', PrintStarted), (''task_stop'', PrintFinished)],
                runs := runs (loaded cli path modpath guefile this) @
                  [\<lparr>r_tasks = actionList args, r_callback = None, r_settled = False,
                    r_fault = start_fault (tasks (loaded cli path modpath guefile this))
                                (actionList args)\<rparr>],
                trace := trace (loaded cli path modpath guefile this) @
                  [OrchestratorStart (actionList args)]\<rparr>)"
    by (simp add: invoke_def loaded_def configured_def require_module_def start_def emitter_on_def
        Let_def)
  have 4: "positional args = [] \<longrightarrow> actionList args = [''default'']"
    by (simp add: actionList_def)
  have 5: "positional args \<noteq> [] \<longrightarrow> actionList args = positional args"
    by (simp add: actionList_def)
  have 6: "(start_fault reg names = None) =
     (\<forall>n\<in>set names. \<forall>d. (n, d) \<in> (depends reg)\<^sup>* \<longrightarrow>
        map_of reg d \<noteq> None \<and> (d, d) \<notin> (depends reg)\<^sup>+)"
    by (rule start_fault_none)
  have 7: "n \<in> set names \<and> map_of reg n = None \<longrightarrow>
      (\<exists>u. start_fault reg names = Some (UnknownTask u))"
    using start_fault_unknown by blast
  from 1 2 3 4 5 6 7 show ?thesis by blast
qed

theorem invoke_runs_named_tasks_witness:
  "configPath (example_cli\<lparr>configPath := None\<rparr>) = None \<and>
   invoke example_lib (example_cli\<lparr>configPath := None\<rparr>) \<lparr>positional = [''coverage''], flag_l = Undefined\<rparr>
       example_guefile example_gue =
     Inr (example_gue\<lparr>trace := [ConsoleLog ''<red>No gulpfile found'', ProcessExit 1],
                      exited := Some 1\<rparr>) \<and>
   configPath example_cli = Some ''/project/guefile.js'' \<and> ''/project/guefile.js'' \<noteq> [] \<and>
   modulePath example_cli = Some ''/project/node_modules/gue/index.js'' \<and>
   ''/project/node_modules/gue/index.js'' \<noteq> [] \<and>
   taskList (loaded example_cli ''/project/guefile.js'' ''/project/node_modules/gue/index.js''
               example_guefile example_gue) = [''default'', ''coverage'', ''fail''] \<and>
   \<not> truthy (flag_l \<lparr>positional = [], flag_l = Undefined\<rparr>) \<and>
   positional \<lparr>positional = [], flag_l = Undefined\<rparr> = [] \<and>
   map_sum fst runs
       (invoke example_lib example_cli \<lparr>positional = [], flag_l = Undefined\<rparr> example_guefile example_gue) =
     Inr [\<lparr>r_tasks = [''default''], r_callback = None, r_settled = False, r_fault = None\<rparr>] \<and>
   positional \<lparr>positional = [''coverage'', ''fail''], flag_l = Undefined\<rparr> \<noteq> [] \<and>
   map_sum fst runs
       (invoke example_lib example_cli \<lparr>positional = [''coverage'', ''fail''], flag_l = Undefined\<rparr>
          example_guefile example_gue) =
     Inr [\<lparr>r_tasks = [''coverage'', ''fail''], r_callback = None, r_settled = False, r_fault = None\<rparr>] \<and>
   map_sum fst trace
       (invoke example_lib example_cli \<lparr>positional = [''coverage'', ''fail''], flag_l = Undefined\<rparr>
          example_guefile example_gue) =
     Inr [Require ''/project/guefile.js'', Require ''/project/node_modules/gue/index.js'',
          OrchestratorStart [''coverage'', ''fail'']] \<and>
   map_sum fst exited
       (invoke example_lib example_cli \<lparr>positional = [''coverage'', ''fail''], flag_l = Undefined\<rparr>
          example_guefile example_gue) = Inr None \<and>
   truthy (flag_l \<lparr>positional = [''coverage''], flag_l = Bool True\<rparr>) \<and>
   map_sum fst trace
       (invoke example_lib example_cli \<lparr>positional = [''coverage''], flag_l = Bool True\<rparr>
          example_guefile example_gue) =
     Inr [Require ''/project/guefile.js'', Require ''/project/node_modules/gue/index.js'',
          ConsoleLog (''default'' @ [CHR 0x0A] @ ''coverage'' @ [CHR 0x0A] @ ''fail''), ProcessExit 0] \<and>
   map_sum fst exited
       (invoke example_lib example_cli \<lparr>positional = [''coverage''], flag_l = Bool True\<rparr>
          example_guefile example_gue) = Inr (Some 0) \<and>
   map_sum fst runs
       (invoke example_lib example_cli \<lparr>positional = [''coverage''], flag_l = Bool True\<rparr>
          example_guefile example_gue) = Inr [] \<and>
   start_fault (tasks (loaded example_cli ''/project/guefile.js'' ''/project/node_modules/gue/index.js''
                         example_guefile example_gue)) [''default''] = None \<and>
   (''default'', ''coverage'') \<in>
     (depends (tasks (loaded example_cli ''/project/guefile.js'' ''/project/node_modules/gue/index.js''
                        example_guefile example_gue)))\<^sup>* \<and>
   map_of (tasks (loaded example_cli ''/project/guefile.js'' ''/project/node_modules/gue/index.js''
                    example_guefile example_gue)) ''coverage'' \<noteq> None \<and>
   (''coverage'', ''coverage'') \<notin>
     (depends (tasks (loaded example_cli ''/project/guefile.js'' ''/project/node_modules/gue/index.js''
                        example_guefile example_gue)))\<^sup>+ \<and>
   ''lint'' \<in> set [''coverage'', ''lint''] \<and>
   map_of (tasks (loaded example_cli ''/project/guefile.js'' ''/project/node_modules/gue/index.js''
                    example_guefile example_gue)) ''lint'' = None \<and>
   start_fault (tasks (loaded example_cli ''/project/guefile.js'' ''/project/node_modules/gue/index.js''
                         example_guefile example_gue)) [''coverage'', ''lint''] =
     Some (UnknownTask ''lint'')"
proof -
  let ?reg = "tasks (loaded example_cli ''/project/guefile.js'' ''/project/node_modules/gue/index.js''
                example_guefile example_gue)"
  note w0 = invoke_runs_named_tasks [of "example_cli\<lparr>configPath := None\<rparr>" example_lib
      "\<lparr>positional = [''coverage''], flag_l = Undefined\<rparr>" example_guefile example_gue
      "''/project/guefile.js''" "''/project/node_modules/gue/index.js''"
      ?reg "[''coverage'', ''lint'']" "''lint''"]
  note w1 = invoke_runs_named_tasks [of example_cli example_lib
      "\<lparr>positional = [], flag_l = Undefined\<rparr>" example_guefile example_gue
      "''/project/guefile.js''" "''/project/node_modules/gue/index.js''"
      ?reg "[''default'']" "''default''"]
  note w2 = invoke_runs_named_tasks [of example_cli example_lib
      "\<lparr>positional = [''coverage'', ''fail''], flag_l = Undefined\<rparr>" example_guefile example_gue
      "''/project/guefile.js''" "''/project/node_modules/gue/index.js''"
      ?reg "[''coverage'', ''fail'']" "''coverage''"]
  note w3 = invoke_runs_named_tasks [of example_cli example_lib
      "\<lparr>positional = [''coverage''], flag_l = Bool True\<rparr>" example_guefile example_gue
      "''/project/guefile.js''" "''/project/node_modules/gue/index.js''"
      ?reg "[''coverage'', ''lint'']" "''lint''"]
  have reg: "?reg =
      [(''default'', \<lparr>t_name = ''default'', t_dep = Some [''coverage'', ''fail''], t_fn = None\<rparr>),
       (''coverage'', \<lparr>t_name = ''coverage'', t_dep = None,
          t_fn = Some (ShellAction ''nyc mocha {{testFiles}}'' Undefined)\<rparr>),
       (''fail'', \<lparr>t_name = ''fail'', t_dep = None, t_fn = Some (ShellAction ''typo'' Undefined)\<rparr>)]"
    by (simp add: loaded_def configured_def require_config_def example_guefile_def example_gue_def
        constructor_def task_def add_def setOption_def)
  have accepted: "start_fault ?reg [''default''] = None"
    unfolding reg by (simp add: start_fault_def faults.simps dependencies_def)
  have reach: "(''default'', ''coverage'') \<in> (depends ?reg)\<^sup>*"
    unfolding reg by (rule r_into_rtrancl) (simp add: depends_def dependencies_def)
  from w1 have "(start_fault ?reg [''default''] = None) =
     (\<forall>n\<in>set [''default'']. \<forall>d. (n, d) \<in> (depends ?reg)\<^sup>* \<longrightarrow>
        map_of ?reg d \<noteq> None \<and> (d, d) \<notin> (depends ?reg)\<^sup>+)"
    by blast
  with accepted reach have closure: "map_of ?reg ''coverage'' \<noteq> None \<and>
      (''coverage'', ''coverage'') \<notin> (depends ?reg)\<^sup>+"
    by simp
  have evaluated:
    "invoke example_lib (example_cli\<lparr>configPath := None\<rparr>) \<lparr>positional = [''coverage''], flag_l = Undefined\<rparr>
         example_guefile example_gue =
       Inr (example_gue\<lparr>trace := [ConsoleLog ''<red>No gulpfile found'', ProcessExit 1],
                        exited := Some 1\<rparr>) \<and>
     taskList (loaded example_cli ''/project/guefile.js'' ''/project/node_modules/gue/index.js''
                 example_guefile example_gue) = [''default'', ''coverage'', ''fail''] \<and>
     map_sum fst runs
         (invoke example_lib example_cli \<lparr>positional = [], flag_l = Undefined\<rparr> example_guefile example_gue) =
       Inr [\<lparr>r_tasks = [''default''], r_callback = None, r_settled = False, r_fault = None\<rparr>] \<and>
     map_sum fst runs
         (invoke example_lib example_cli \<lparr>positional = [''coverage'', ''fail''], flag_l = Undefined\<rparr>
            example_guefile example_gue) =
       Inr [\<lparr>r_tasks = [''coverage'', ''fail''], r_callback = None, r_settled = False, r_fault = None\<rparr>] \<and>
     map_sum fst trace
         (invoke example_lib example_cli \<lparr>positional = [''coverage'', ''fail''], flag_l = Undefined\<rparr>
            example_guefile example_gue) =
       Inr [Require ''/project/guefile.js'', Require ''/project/node_modules/gue/index.js'',
            OrchestratorStart [''coverage'', ''fail'']] \<and>
     map_sum fst exited
         (invoke example_lib example_cli \<lparr>positional = [''coverage'', ''fail''], flag_l = Undefined\<rparr>
            example_guefile example_gue) = Inr None \<and>
     map_sum fst trace
         (invoke example_lib example_cli \<lparr>positional = [''coverage''], flag_l = Bool True\<rparr>
            example_guefile example_gue) =
       Inr [Require ''/project/guefile.js'', Require ''/project/node_modules/gue/index.js'',
            ConsoleLog (''default'' @ [CHR 0x0A] @ ''coverage'' @ [CHR 0x0A] @ ''fail''), ProcessExit 0] \<and>
     map_sum fst exited
         (invoke example_lib example_cli \<lparr>positional = [''coverage''], flag_l = Bool True\<rparr>
            example_guefile example_gue) = Inr (Some 0) \<and>
     map_sum fst runs
         (invoke example_lib example_cli \<lparr>positional = [''coverage''], flag_l = Bool True\<rparr>
            example_guefile example_gue) = Inr [] \<and>
     map_of ?reg ''lint'' = None \<and>
     start_fault ?reg [''coverage'', ''lint''] = Some (UnknownTask ''lint'')"
    using w0 w2 w3
    by (simp add: invoke_def loaded_def configured_def actionList_def example_cli_def process_exit_def
        console_log_def start_def emitter_on_def require_config_def require_module_def
        example_guefile_def example_gue_def example_lib_def constructor_def task_def add_def
        setOption_def taskList_def start_fault_def faults.simps dependencies_def Let_def)
  have given: "configPath (example_cli\<lparr>configPath := None\<rparr>) = None \<and>
     configPath example_cli = Some ''/project/guefile.js'' \<and>
     modulePath example_cli = Some ''/project/node_modules/gue/index.js''"
    by (simp add: example_cli_def)
  from given evaluated accepted reach closure show ?thesis
    by simp
qed

text \<open>
  Claim C9 as it is stated fails. Without a configuration file the command line runs
  nothing and lists nothing: with no argument the task \<open>default\<close> is not started,
  and with the flag \<^verbatim>\<open>-l\<close> the exit status is 1 and no task name is printed; in
  both cases the message of the guard \<^verbatim>\<open>if (!env.configPath)\<close> is printed and
  the process exits with status 1. With a configuration file but without a local
  module, \<^verbatim>\<open>require(env.modulePath)\<close> throws, and no run is started. And with a
  positional argument that names no registered task, the run of the named tasks is
  refused by the scheduler.
\<close>

theorem invoke_runs_nothing_counterexample:
  "map_sum fst runs
       (invoke example_lib (example_cli\<lparr>configPath := None\<rparr>) \<lparr>positional = [], flag_l = Undefined\<rparr>
          example_guefile example_gue) = Inr [] \<and>
   map_sum fst trace
       (invoke example_lib (example_cli\<lparr>configPath := None\<rparr>) \<lparr>positional = [], flag_l = Undefined\<rparr>
          example_guefile example_gue) =
     Inr [ConsoleLog (chalk_red example_lib ''No gulpfile found''), ProcessExit 1] \<and>
   map_sum fst exited
       (invoke example_lib (example_cli\<lparr>configPath := None\<rparr>) \<lparr>positional = [], flag_l = Bool True\<rparr>
          example_guefile example_gue) = Inr (Some 1) \<and>
   map_sum fst trace
       (invoke example_lib (example_cli\<lparr>configPath := None\<rparr>) \<lparr>positional = [], flag_l = Bool True\<rparr>
          example_guefile example_gue) =
     Inr [ConsoleLog (chalk_red example_lib ''No gulpfile found''), ProcessExit 1] \<and>
   invoke example_lib (example_cli\<lparr>modulePath := None\<rparr>) \<lparr>positional = [], flag_l = Undefined\<rparr>
       example_guefile example_gue =
     Inl (RequireWithoutPath, configured example_cli ''/project/guefile.js'' example_guefile example_gue) \<and>
   runs (configured example_cli ''/project/guefile.js'' example_guefile example_gue) = [] \<and>
   trace (configured example_cli ''/project/guefile.js'' example_guefile example_gue) =
     [Require ''/project/guefile.js''] \<and>
   map_sum fst runs
       (invoke example_lib example_cli \<lparr>positional = [''coverage'', ''lint''], flag_l = Undefined\<rparr>
          example_guefile example_gue) =
     Inr [\<lparr>r_tasks = [''coverage'', ''lint''], r_callback = None, r_settled = False,
           r_fault = Some (UnknownTask ''lint'')\<rparr>]"
  by (simp add: invoke_def configured_def actionList_def example_cli_def process_exit_def
      console_log_def start_def emitter_on_def require_config_def require_module_def
      example_guefile_def example_gue_def example_lib_def constructor_def task_def add_def
      setOption_def taskList_def start_fault_def faults.simps dependencies_def Let_def)

subsection \<open>shell and silentShell\<close>

text \<open>
  Claim C10. For every command and binding table, \<^verbatim>\<open>silentShell\<close> gives its caller
  what \<^verbatim>\<open>shell\<close> gives (the same exception, or the promise settled the same way
  with the same result of \<^verbatim>\<open>execa\<close>) and leaves the exit-status flag as
  \<^verbatim>\<open>shell\<close> leaves it. The two final states differ only in lines that \<^verbatim>\<open>shell\<close>
  has printed to the console, and \<^verbatim>\<open>silentShell\<close> prints nothing.
\<close>

theorem silentShell_agrees_with_shell:
  "fst (silentShell L command value this) = fst (shell L command value this) \<and>
   exitCode (snd (silentShell L command value this)) = exitCode (snd (shell L command value this)) \<and>
   (\<exists>lines. snd (shell L command value this) =
      (snd (silentShell L command value this))
        \<lparr>trace := trace (snd (silentShell L command value this)) @ map ConsoleLog lines\<rparr>) \<and>
   filter is_console_log (trace (snd (silentShell L command value this))) =
     filter is_console_log (trace this)"
proof (cases "template L interpolate command (lodashVars value this)")
  case (Inl e)
  then have "shell L command value this = (Threw e, this)" "silentShell L command value this = (Threw e, this)"
    by (simp_all add: shell_def silentShell_def u_shell_def)
  moreover have "this = this\<lparr>trace := trace this @ map ConsoleLog []\<rparr>" by simp
  ultimately show ?thesis by (metis fst_conv snd_conv)
next
  case (Inr cmd)
  define started where "started = this\<lparr>trace := trace this @ [ExecaShell cmd (shellOpts this)]\<rparr>"
  show ?thesis
  proof (cases "execa_shell L cmd (shellOpts this)")
    case (Resolved r)
    have s: "silentShell L command value this = (Promise (Resolved r), started)"
      using Inr Resolved by (simp add: silentShell_def u_shell_def started_def)
    have p: "shell L command value this = (Promise (Resolved r),
        log L (trimNewlines L (stdout r)) None None (errLog L (trimNewlines L (stderr r)) None None started))"
      using Inr Resolved by (simp add: shell_def u_shell_def started_def)
    obtain ls where ls: "log L (trimNewlines L (stdout r)) None None (errLog L (trimNewlines L (stderr r)) None None started)
        = started\<lparr>trace := trace started @ map ConsoleLog ls\<rparr>"
      using report_prints by blast
    show ?thesis unfolding s p ls by (auto simp: started_def)
  next
    case (Rejected r)
    have s: "silentShell L command value this = (Promise (Rejected r), started\<lparr>exitCode := 1\<rparr>)"
      using Inr Rejected by (simp add: silentShell_def u_shell_def started_def)
    have p: "shell L command value this = (Promise (Rejected r),
        log L (trimNewlines L (stdout r)) None None
          (errLog L (trimNewlines L (stderr r)) None None (started\<lparr>exitCode := 1\<rparr>)))"
      using Inr Rejected by (simp add: shell_def u_shell_def started_def)
    obtain ls where ls: "log L (trimNewlines L (stdout r)) None None
          (errLog L (trimNewlines L (stderr r)) None None (started\<lparr>exitCode := 1\<rparr>))
        = (started\<lparr>exitCode := 1\<rparr>)\<lparr>trace := trace (started\<lparr>exitCode := 1\<rparr>) @ map ConsoleLog ls\<rparr>"
      using report_prints by blast
    show ?thesis unfolding s p ls by (auto simp: started_def)
  qed
qed


theorem silentShell_agrees_with_shell_witness:
  "fst (silentShell example_lib ''typo'' Undefined example_gue) =
     fst (shell example_lib ''typo'' Undefined example_gue) \<and>
   fst (silentShell example_lib ''typo'' Undefined example_gue) =
     Promise (Rejected \<lparr>stdout = [], stderr = ''typo: not found'' @ [CHR 0x0A], code = 127\<rparr>) \<and>
   exitCode (snd (silentShell example_lib ''typo'' Undefined example_gue)) = 1 \<and>
   exitCode (snd (shell example_lib ''typo'' Undefined example_gue)) = 1 \<and>
   trace (snd (silentShell example_lib ''typo'' Undefined example_gue)) =
     [ExecaShell ''typo'' (shellOpts example_gue)] \<and>
   trace (snd (shell example_lib ''typo'' Undefined example_gue)) =
     [ExecaShell ''typo'' (shellOpts example_gue), ConsoleLog ''<red>typo: not found'']"
  using silentShell_agrees_with_shell [of example_lib "''typo''" Undefined example_gue]
  by (simp add: silentShell_def shell_def u_shell_def lodashVars_def this_options_def example_lib_def example_gue_def
      constructor_def shellOpts_def log_def errLog_def u_log_def console_log_def not_taskname_def
      not_duration_def)

end
